theory Spec2Isabelle
  imports Complex_Main "HOL-Library.AList" "HOL-Library.Multiset" "HOL-Library.Char_ord" "HOL-Library.List_Lexorder"
begin

section \<open>Python strings\<close>

text \<open>
  Python \<open>str\<close> values are modelled as \<^typ>\<open>string\<close>. The model covers ASCII text:
  \<open>str.lower\<close> maps \<open>A-Z\<close> to \<open>a-z\<close> and leaves every other character alone, and
  the characters that \<open>str.isspace\<close>, \<open>str.strip\<close> and the regular expression class
  \<open>\s\<close> treat as white space are the ASCII ones (tab, line feed, vertical tab, form feed,
  carriage return, the four separators \<open>0x1C-0x1F\<close> and the blank).
\<close>

definition ascii_uppercase :: string where
  "ascii_uppercase = ''ABCDEFGHIJKLMNOPQRSTUVWXYZ''"

definition ascii_lowercase :: string where
  "ascii_lowercase = ''abcdefghijklmnopqrstuvwxyz''"

definition lower_char :: "char \<Rightarrow> char" where
  "lower_char c = (case map_of (zip ascii_uppercase ascii_lowercase) c of
     Some l \<Rightarrow> l | None \<Rightarrow> c)"

definition lower :: "string \<Rightarrow> string" where
  "lower s = map lower_char s"

definition whitespace :: string where
  "whitespace = [CHR 0x09, CHR 0x0A, CHR 0x0B, CHR 0x0C, CHR 0x0D,
                 CHR 0x1C, CHR 0x1D, CHR 0x1E, CHR 0x1F, CHR 0x20]"

definition isspace :: "char \<Rightarrow> bool" where
  "isspace c = (c \<in> set whitespace)"

definition strip :: "string \<Rightarrow> string" where
  "strip s = rev (dropWhile isspace (rev (dropWhile isspace s)))"

section \<open>Skill synonyms (job_matcher/utils/skill_synonyms.py)\<close>

text \<open>
  \<open>SKILL_SYNONYMS\<close> is the dictionary literal of the source, in source order: the canonical
  form and its set of alternative forms. The members of one set are pairwise different, so
  the order in which the loop below visits them does not change the table it builds.
\<close>

definition SKILL_SYNONYMS :: "(string \<times> string list) list" where
  "SKILL_SYNONYMS = [
    (''javascript'', [''js'', ''ecmascript'', ''es6'', ''es2015'', ''es2020'', ''vanilla js'']),
    (''typescript'', [''ts'']),
    (''python'', [''python3'', ''python2'', ''py'', ''cpython'']),
    (''java'', [''java8'', ''java11'', ''java17'', ''jdk'', ''j2ee'', ''jee'']),
    (''c#'', [''csharp'', ''c sharp'', ''.net c#'']),
    (''c++'', [''cpp'', ''c plus plus'', ''cplusplus'']),
    (''c'', [''ansi c'', ''c language'']),
    (''go'', [''golang'']),
    (''rust'', [''rustlang'']),
    (''ruby'', [''ruby on rails'', ''ror'']),
    (''php'', [''php7'', ''php8'']),
    (''swift'', [''swift ui'', ''swiftui'']),
    (''kotlin'', [''kotlin/jvm'']),
    (''scala'', [''scala lang'']),
    (''r'', [''r language'', ''r programming'', ''rstats'']),
    (''matlab'', [''mathlab'']),
    (''perl'', [''perl5'']),
    (''shell'', [''bash'', ''sh'', ''zsh'', ''shell scripting'', ''bash scripting'']),
    (''powershell'', [''ps'', ''posh'', ''windows powershell'']),
    (''sql'', [''structured query language'', ''sql queries'']),
    (''react'', [''reactjs'', ''react.js'', ''react js'']),
    (''angular'', [''angularjs'', ''angular.js'', ''angular 2+'', ''ng'']),
    (''vue'', [''vuejs'', ''vue.js'', ''vue3'']),
    (''svelte'', [''sveltejs'', ''svelte.js'']),
    (''next.js'', [''nextjs'', ''next'']),
    (''nuxt'', [''nuxtjs'', ''nuxt.js'']),
    (''jquery'', [''jquery.js'']),
    (''bootstrap'', [''twitter bootstrap'', ''bootstrap css'']),
    (''tailwind'', [''tailwindcss'', ''tailwind css'']),
    (''node.js'', [''nodejs'', ''node'', ''express.js'', ''expressjs'']),
    (''django'', [''django python'', ''django rest framework'', ''drf'']),
    (''flask'', [''flask python'']),
    (''fastapi'', [''fast api'', ''fastapi python'']),
    (''spring'', [''spring boot'', ''spring framework'', ''springboot'']),
    (''rails'', [''ruby on rails'', ''ror'']),
    (''laravel'', [''laravel php'']),
    (''asp.net'', [''aspnet'', ''asp net'', ''.net core'', ''dotnet'']),
    (''postgresql'', [''postgres'', ''psql'', ''pg'']),
    (''mysql'', [''mariadb'', ''maria db'']),
    (''mongodb'', [''mongo'', ''mongo db'']),
    (''redis'', [''redis cache'']),
    (''elasticsearch'', [''elastic'', ''es'', ''elk'']),
    (''dynamodb'', [''dynamo db'', ''aws dynamodb'']),
    (''cassandra'', [''apache cassandra'']),
    (''sqlite'', [''sqlite3'']),
    (''oracle'', [''oracle db'', ''oracle database'', ''plsql'', ''pl/sql'']),
    (''sql server'', [''mssql'', ''microsoft sql server'', ''ms sql'']),
    (''aws'', [''amazon web services'', ''amazon aws'']),
    (''azure'', [''microsoft azure'', ''azure cloud'']),
    (''gcp'', [''google cloud'', ''google cloud platform'']),
    (''heroku'', [''heroku cloud'']),
    (''digitalocean'', [''digital ocean'']),
    (''cloudflare'', [''cloudflare workers'']),
    (''docker'', [''containerization'', ''docker compose'', ''docker-compose'']),
    (''kubernetes'', [''k8s'', ''kube'', ''k8'', ''kubectl'']),
    (''terraform'', [''terraform iac'', ''tf'']),
    (''ansible'', [''ansible automation'']),
    (''jenkins'', [''jenkins ci'', ''jenkins pipeline'']),
    (''gitlab ci'', [''gitlab-ci'', ''gitlab ci/cd'']),
    (''github actions'', [''gh actions'', ''github workflows'']),
    (''circleci'', [''circle ci'']),
    (''nginx'', [''nginx server'']),
    (''apache'', [''apache http'', ''httpd'']),
    (''linux'', [''unix'', ''linux administration'', ''rhel'', ''centos'', ''ubuntu'']),
    (''machine learning'', [''ml'', ''statistical learning'']),
    (''deep learning'', [''dl'', ''neural networks'', ''nn'']),
    (''tensorflow'', [''tf'', ''tensorflow 2'']),
    (''pytorch'', [''torch'']),
    (''scikit-learn'', [''sklearn'', ''scikit learn'']),
    (''pandas'', [''pandas python'']),
    (''numpy'', [''np'', ''numpy python'']),
    (''spark'', [''apache spark'', ''pyspark'']),
    (''hadoop'', [''apache hadoop'', ''hdfs'']),
    (''kafka'', [''apache kafka'']),
    (''rest'', [''restful'', ''rest api'', ''restful api'']),
    (''graphql'', [''graph ql'', ''gql'']),
    (''grpc'', [''g rpc'']),
    (''soap'', [''soap api'']),
    (''websocket'', [''websockets'', ''ws'']),
    (''jest'', [''jestjs'']),
    (''pytest'', [''py.test'', ''python testing'']),
    (''junit'', [''junit5'']),
    (''selenium'', [''selenium webdriver'']),
    (''cypress'', [''cypress.io'']),
    (''mocha'', [''mochajs'']),
    (''git'', [''github'', ''gitlab'', ''bitbucket'', ''version control'']),
    (''svn'', [''subversion'']),
    (''agile'', [''scrum'', ''kanban'', ''agile methodology'']),
    (''jira'', [''atlassian jira'']),
    (''confluence'', [''atlassian confluence'']),
    (''cybersecurity'', [''cyber security'', ''infosec'', ''information security'']),
    (''penetration testing'', [''pen testing'', ''pentest'', ''ethical hacking'']),
    (''oauth'', [''oauth2'', ''oauth 2.0'']),
    (''jwt'', [''json web token'', ''json web tokens'']),
    (''microservices'', [''micro services'', ''microservice architecture'']),
    (''ci/cd'', [''cicd'', ''ci cd'', ''continuous integration'', ''continuous deployment'']),
    (''api'', [''apis'', ''api development''])]"

text \<open>
  The module-level loop
  \<^verbatim>\<open>
  for canonical, synonyms in SKILL_SYNONYMS.items():
      _REVERSE_LOOKUP[canonical.lower()] = canonical
      for syn in synonyms:
          _REVERSE_LOOKUP[syn.lower()] = canonical
  \<close>
  A dictionary assignment is \<^const>\<open>AList.update\<close>: a key that is already present keeps
  its place and gets the new value, so a later entry overwrites an earlier one.
\<close>

definition add_entry ::
  "string \<times> string list \<Rightarrow> (string \<times> string) list \<Rightarrow> (string \<times> string) list" where
  "add_entry e d = (case e of (canonical, synonyms) \<Rightarrow>
     fold (\<lambda>syn d. AList.update (lower syn) canonical d) synonyms
       (AList.update (lower canonical) canonical d))"

definition REVERSE_LOOKUP :: "(string \<times> string) list" where
  "REVERSE_LOOKUP = fold add_entry SKILL_SYNONYMS []"

definition normalize_skill :: "string \<Rightarrow> string" where
  "normalize_skill skill =
     (if skill = [] then []
      else (let skill_lower = strip (lower skill) in
        case map_of REVERSE_LOOKUP skill_lower of
          Some canonical \<Rightarrow> canonical
        | None \<Rightarrow> skill_lower))"


section \<open>Match results (job_matcher/models/match_result.py)\<close>

text \<open>
  Python floats are modelled as real numbers: the model follows the arithmetic the code
  writes and leaves the rounding of the binary representation out.
\<close>

record SkillGap =
  skill :: string
  importance :: string
  category :: string
  learning_path :: "string option"
  estimated_time :: "string option"

record MatchResult =
  score :: real
  semantic_score :: real
  skill_score :: real
  experience_score :: real
  matched_skills :: "string list"
  missing_required_skills :: "string list"
  missing_preferred_skills :: "string list"
  skill_gaps :: "SkillGap list"
  upskilling_recommendations :: "string list"
  clearance_met :: bool
  disqualified :: bool
  disqualification_reason :: "string option"
  job_id :: "string option"
  job_title :: "string option"
  job_company :: "string option"
  explanation :: string

text \<open>The dataclass defaults: \<open>MatchResult()\<close> with no argument.\<close>

definition MatchResult_default :: MatchResult where
  "MatchResult_default = \<lparr>
     score = 0, semantic_score = 0, skill_score = 0, experience_score = 0,
     matched_skills = [], missing_required_skills = [], missing_preferred_skills = [],
     skill_gaps = [], upskilling_recommendations = [],
     clearance_met = True, disqualified = False, disqualification_reason = None,
     job_id = None, job_title = None, job_company = None, explanation = [] \<rparr>"

text \<open>
  The argument of \<open>__eq__\<close> is any Python object; the test \<open>isinstance(other, MatchResult)\<close>
  tells a match result from everything else.
\<close>

datatype py_object = A_MatchResult MatchResult | Other_object

definition MatchResult_lt :: "MatchResult \<Rightarrow> MatchResult \<Rightarrow> bool" where
  "MatchResult_lt self other = (score self < score other)"

definition MatchResult_eq :: "MatchResult \<Rightarrow> py_object \<Rightarrow> bool" where
  "MatchResult_eq self other =
     (case other of
        Other_object \<Rightarrow> False
      | A_MatchResult r \<Rightarrow> \<bar>score self - score r\<bar> < 1 / 100)"


section \<open>Display names and matching (job_matcher/utils/skill_synonyms.py, continued)\<close>

text \<open>The dictionary \<open>display_names\<close> of \<open>get_canonical_skill\<close>.\<close>

definition display_names :: "(string \<times> string) list" where
  "display_names = [
    (''javascript'', ''JavaScript''),
    (''typescript'', ''TypeScript''),
    (''python'', ''Python''),
    (''java'', ''Java''),
    (''c#'', ''C#''),
    (''c++'', ''C++''),
    (''go'', ''Go''),
    (''rust'', ''Rust''),
    (''ruby'', ''Ruby''),
    (''php'', ''PHP''),
    (''swift'', ''Swift''),
    (''kotlin'', ''Kotlin''),
    (''react'', ''React''),
    (''angular'', ''Angular''),
    (''vue'', ''Vue.js''),
    (''node.js'', ''Node.js''),
    (''django'', ''Django''),
    (''flask'', ''Flask''),
    (''fastapi'', ''FastAPI''),
    (''spring'', ''Spring''),
    (''postgresql'', ''PostgreSQL''),
    (''mysql'', ''MySQL''),
    (''mongodb'', ''MongoDB''),
    (''redis'', ''Redis''),
    (''elasticsearch'', ''Elasticsearch''),
    (''aws'', ''AWS''),
    (''azure'', ''Azure''),
    (''gcp'', ''GCP''),
    (''docker'', ''Docker''),
    (''kubernetes'', ''Kubernetes''),
    (''terraform'', ''Terraform''),
    (''ansible'', ''Ansible''),
    (''jenkins'', ''Jenkins''),
    (''linux'', ''Linux''),
    (''git'', ''Git''),
    (''machine learning'', ''Machine Learning''),
    (''deep learning'', ''Deep Learning''),
    (''tensorflow'', ''TensorFlow''),
    (''pytorch'', ''PyTorch''),
    (''scikit-learn'', ''scikit-learn''),
    (''pandas'', ''Pandas''),
    (''numpy'', ''NumPy''),
    (''rest'', ''REST API''),
    (''graphql'', ''GraphQL''),
    (''sql'', ''SQL''),
    (''agile'', ''Agile''),
    (''ci/cd'', ''CI/CD''),
    (''microservices'', ''Microservices'')]"

definition get_canonical_skill :: "string \<Rightarrow> string" where
  "get_canonical_skill s =
     (let normalized = normalize_skill s
      in case map_of display_names normalized of
           Some display \<Rightarrow> display
         | None \<Rightarrow> s)"

definition skills_match :: "string \<Rightarrow> string \<Rightarrow> bool" where
  "skills_match skill1 skill2 =
     (if skill1 = [] \<or> skill2 = [] then False
      else normalize_skill skill1 = normalize_skill skill2)"

section \<open>Skill scorer (job_matcher/scoring/skill_scorer.py)\<close>

text \<open>
  The result record of the scorer. Its field \<open>score\<close> is called \<open>skill_match_score\<close> here
  and \<open>matched_skills\<close> is \<open>skill_match_matched\<close>, since a match result has fields of
  both names.
\<close>

record SkillMatchResult =
  skill_match_score :: real
  skill_match_matched :: "string list"
  missing_required :: "string list"
  missing_preferred :: "string list"
  gaps :: "SkillGap list"

record SkillScorer =
  required_weight :: real
  preferred_weight :: real

text \<open>\<open>SkillScorer()\<close>: the default weights of \<open>__init__\<close>.\<close>

definition SkillScorer_default :: SkillScorer where
  "SkillScorer_default = \<lparr>required_weight = 2, preferred_weight = 1\<rparr>"

text \<open>The set comprehension \<open>{normalize_skill(s) for s in skills if s}\<close>.\<close>

definition normalized_set :: "string list \<Rightarrow> string set" where
  "normalized_set skills = normalize_skill ` set (filter (\<lambda>s. s \<noteq> []) skills)"

definition categorize_skill :: "string \<Rightarrow> string" where
  "categorize_skill s =
     (let programming = [''python'', ''java'', ''javascript'', ''typescript'', ''c++'', ''c#'',
            ''go'', ''rust'', ''ruby'', ''php'', ''swift'', ''kotlin'', ''scala''];
          frontend = [''react'', ''angular'', ''vue'', ''svelte'', ''html'', ''css'',
            ''tailwind'', ''bootstrap'', ''jquery''];
          backend = [''django'', ''flask'', ''fastapi'', ''spring'', ''node.js'', ''express'',
            ''rails'', ''laravel'', ''asp.net''];
          database = [''postgresql'', ''mysql'', ''mongodb'', ''redis'', ''elasticsearch'',
            ''dynamodb'', ''cassandra'', ''sql'', ''oracle''];
          cloud = [''aws'', ''azure'', ''gcp'', ''heroku'', ''digitalocean''];
          devops = [''docker'', ''kubernetes'', ''terraform'', ''ansible'', ''jenkins'',
            ''ci/cd'', ''linux'', ''nginx''];
          data = [''machine learning'', ''deep learning'', ''tensorflow'', ''pytorch'',
            ''pandas'', ''numpy'', ''spark'', ''hadoop''];
          normalized = normalize_skill s
      in if normalized \<in> set programming then ''programming''
         else if normalized \<in> set frontend then ''frontend''
         else if normalized \<in> set backend then ''backend''
         else if normalized \<in> set database then ''database''
         else if normalized \<in> set cloud then ''cloud''
         else if normalized \<in> set devops then ''devops''
         else if normalized \<in> set data then ''data_science''
         else ''technical'')"

text \<open>
  \<open>_get_display_skills\<close>: the loop over the original skills, with the list \<open>display\<close> and
  the set \<open>seen\<close> as its state.
\<close>

fun display_loop :: "string set \<Rightarrow> string list \<Rightarrow> string list \<Rightarrow> string set \<Rightarrow> string list" where
  "display_loop normalized_skills [] display seen = display"
| "display_loop normalized_skills (s # original_skills) display seen =
     (let norm = normalize_skill s
      in if norm \<in> normalized_skills \<and> norm \<notin> seen
         then display_loop normalized_skills original_skills
                (display @ [get_canonical_skill s]) (insert norm seen)
         else display_loop normalized_skills original_skills display seen)"

definition get_display_skills :: "string set \<Rightarrow> string list \<Rightarrow> string list" where
  "get_display_skills normalized_skills original_skills =
     display_loop normalized_skills original_skills [] {}"

definition make_gap :: "string \<Rightarrow> string \<Rightarrow> SkillGap" where
  "make_gap imp s = \<lparr>skill = s, importance = imp, category = categorize_skill s,
     learning_path = None, estimated_time = None\<rparr>"

definition build_skill_gaps :: "string list \<Rightarrow> string list \<Rightarrow> SkillGap list" where
  "build_skill_gaps missing_req missing_pref =
     map (make_gap ''required'') missing_req @ map (make_gap ''preferred'') missing_pref"

definition SkillScorer_score ::
  "SkillScorer \<Rightarrow> string list \<Rightarrow> string list \<Rightarrow> string list \<Rightarrow> SkillMatchResult" where
  "SkillScorer_score self resume_skills required_skills preferred_skills =
     (let resume_normalized = normalized_set resume_skills;
          required_normalized = normalized_set required_skills;
          preferred_normalized = normalized_set preferred_skills;
          matched_required_norm = resume_normalized \<inter> required_normalized;
          matched_preferred_norm = resume_normalized \<inter> preferred_normalized;
          missing_required_norm = required_normalized - matched_required_norm;
          missing_preferred_norm = preferred_normalized - matched_preferred_norm;
          total_possible = real (card required_normalized) * required_weight self +
                           real (card preferred_normalized) * preferred_weight self;
          sc = (if total_possible = 0 then 1 / 2
                else (real (card matched_required_norm) * required_weight self +
                      real (card matched_preferred_norm) * preferred_weight self)
                     / total_possible);
          matched = get_display_skills (matched_required_norm \<union> matched_preferred_norm)
                      (required_skills @ preferred_skills);
          missing_req = get_display_skills missing_required_norm required_skills;
          missing_pref = get_display_skills missing_preferred_norm preferred_skills;
          gps = build_skill_gaps missing_req missing_pref
      in \<lparr>skill_match_score = min sc 1,
          skill_match_matched = sort matched,
          missing_required = sort missing_req,
          missing_preferred = sort missing_pref,
          gaps = gps\<rparr>)"


section \<open>Regular expressions (the part of Python's re module the code uses)\<close>

text \<open>
  The patterns of the source are written in a small datatype, and \<open>re.search\<close> is the
  backtracking matcher of the library: a match is tried at every start position from the
  left, alternatives are tried from left to right, and \<open>?\<close>, \<open>+\<close> and \<open>*\<close> are greedy.
  The matcher returns the list of ways a pattern can match at a position, the one Python
  takes first. Repetition is only needed over a single character class (\<open>\s+\<close>, \<open>\s*\<close>,
  \<open>\d+\<close>, \<open>[:\s]+\<close>), and a look-behind only over a fixed sequence of classes.
\<close>

datatype atom = Lit char | Space | Digit

fun atom_matches :: "atom \<Rightarrow> char \<Rightarrow> bool" where
  "atom_matches (Lit a) c = (c = a)"
| "atom_matches Space c = isspace c"
| "atom_matches Digit c = (c \<in> set ''0123456789'')"

text \<open>A character class is the union of its atoms.\<close>

fun in_class :: "atom list \<Rightarrow> char \<Rightarrow> bool" where
  "in_class [] c = False"
| "in_class (a # as) c = (if atom_matches a c then True else in_class as c)"

datatype regex =
    RSym "atom list"
  | REps
  | RSeq regex regex
  | ROr regex regex
  | ROpt regex
  | RPlus "atom list"
  | RStar "atom list"
  | RGroup regex
  | RWordB
  | RNotBehind "atom list list"
  | RNotAhead regex

text \<open>
  A matcher state: the text before the position (reversed), the text from the position
  on, and the groups captured so far.
\<close>

type_synonym mstate = "string \<times> string \<times> string list"

definition isword :: "char \<Rightarrow> bool" where
  "isword c = (c \<in> set (ascii_lowercase @ ascii_uppercase @ ''0123456789_''))"

text \<open>\<open>\b\<close>: exactly one of the two neighbours of the position is a word character.\<close>

fun word_boundary :: "string \<Rightarrow> string \<Rightarrow> bool" where
  "word_boundary [] [] = False"
| "word_boundary [] (c # cs) = isword c"
| "word_boundary (b # bs) [] = isword b"
| "word_boundary (b # bs) (c # cs) = (isword b \<noteq> isword c)"

text \<open>The classes of a look-behind against the text before the position, last class first.\<close>

fun behind_matches :: "atom list list \<Rightarrow> string \<Rightarrow> bool" where
  "behind_matches [] left = True"
| "behind_matches (cl # cls) [] = False"
| "behind_matches (cl # cls) (b # bs) = (if in_class cl b then behind_matches cls bs else False)"

text \<open>Consuming \<open>k\<close> characters of a class, for \<open>k\<close> from the longest run down to \<open>least\<close>.\<close>

fun consume :: "nat \<Rightarrow> mstate \<Rightarrow> mstate" where
  "consume 0 st = st"
| "consume (Suc k) (left, [], caps) = (left, [], caps)"
| "consume (Suc k) (left, c # cs, caps) = consume k (c # left, cs, caps)"

definition repeat_class :: "atom list \<Rightarrow> nat \<Rightarrow> mstate \<Rightarrow> mstate list" where
  "repeat_class cl least st =
     (let n = length (takeWhile (in_class cl) (fst (snd st)))
      in map (\<lambda>k. consume k st) (rev [least ..< Suc n]))"

definition capture :: "mstate \<Rightarrow> mstate \<Rightarrow> mstate" where
  "capture st st' =
     (case st' of (left', rest', caps') \<Rightarrow>
        (left', rest', caps' @ [take (length (fst (snd st)) - length rest') (fst (snd st))]))"

fun rmatch :: "regex \<Rightarrow> mstate \<Rightarrow> mstate list" where
  "rmatch (RSym cl) st =
     (case st of
        (left, [], caps) \<Rightarrow> []
      | (left, c # cs, caps) \<Rightarrow> if in_class cl c then [(c # left, cs, caps)] else [])"
| "rmatch REps st = [st]"
| "rmatch (RSeq r1 r2) st = concat (map (rmatch r2) (rmatch r1 st))"
| "rmatch (ROr r1 r2) st = rmatch r1 st @ rmatch r2 st"
| "rmatch (ROpt r) st = rmatch r st @ [st]"
| "rmatch (RPlus cl) st = repeat_class cl 1 st"
| "rmatch (RStar cl) st = repeat_class cl 0 st"
| "rmatch (RGroup r) st = map (capture st) (rmatch r st)"
| "rmatch RWordB st = (if word_boundary (fst st) (fst (snd st)) then [st] else [])"
| "rmatch (RNotBehind cls) st = (if behind_matches (rev cls) (fst st) then [] else [st])"
| "rmatch (RNotAhead r) st = (if rmatch r st = [] then [st] else [])"

text \<open>
  A match object: the matched text (\<open>group()\<close>) and the captured groups (\<open>group(1)\<close> is
  the first).
\<close>

record re_match =
  group0 :: string
  groups :: "string list"

text \<open>\<open>re.search\<close> from a given position on: the text before it is kept reversed.\<close>

fun search_from :: "regex \<Rightarrow> string \<Rightarrow> string \<Rightarrow> re_match option" where
  "search_from r left [] =
     (case rmatch r (left, [], []) of
        [] \<Rightarrow> None
      | (left', rest', caps') # _ \<Rightarrow> Some \<lparr>group0 = [], groups = caps'\<rparr>)"
| "search_from r left (c # cs) =
     (case rmatch r (left, c # cs, []) of
        [] \<Rightarrow> search_from r (c # left) cs
      | (left', rest', caps') # _ \<Rightarrow>
          Some \<lparr>group0 = take (length (c # cs) - length rest') (c # cs), groups = caps'\<rparr>)"

definition re_search :: "regex \<Rightarrow> string \<Rightarrow> re_match option" where
  "re_search r s = search_from r [] s"

text \<open>Writing patterns: a literal string, and a sequence of patterns.\<close>

definition lit :: "string \<Rightarrow> regex" where
  "lit s = foldr (\<lambda>c r. RSeq (RSym [Lit c]) r) s REps"

definition seqs :: "regex list \<Rightarrow> regex" where
  "seqs rs = foldr RSeq rs REps"

definition alts :: "regex list \<Rightarrow> regex" where
  "alts rs = (case rs of [] \<Rightarrow> REps | r # rs' \<Rightarrow> foldl ROr r rs')"


section \<open>Clearance levels (job_matcher/utils/clearance.py)\<close>

datatype ClearanceLevel = NONE | PUBLIC_TRUST | SECRET | TOP_SECRET | TS_SCI

text \<open>The value of the \<open>IntEnum\<close> member.\<close>

fun level_value :: "ClearanceLevel \<Rightarrow> int" where
  "level_value NONE = 0"
| "level_value PUBLIC_TRUST = 1"
| "level_value SECRET = 2"
| "level_value TOP_SECRET = 3"
| "level_value TS_SCI = 4"

definition slash_dash :: "atom list" where
  "slash_dash = [Lit CHR ''/'', Lit CHR ''-'']"

text \<open>
  \<open>CLEARANCE_PATTERNS\<close>, in the order of the dictionary literal. Before each list stand the
  raw strings of the source, in the same order.
\<close>

text \<open>
  \<^verbatim>\<open>\bts[/-]?sci\b\<close>
  \<^verbatim>\<open>\btop\s+secret[/-]?sci\b\<close>
  \<^verbatim>\<open>\bts\s+w(?:ith)?\s+sci\b\<close>
  \<^verbatim>\<open>\bsci\s+clearance\b\<close>
  \<^verbatim>\<open>\bsci\s+eligible\b\<close>
\<close>

definition TS_SCI_patterns :: "regex list" where
  "TS_SCI_patterns = [
     seqs [RWordB, lit ''ts'', ROpt (RSym slash_dash), lit ''sci'', RWordB],
     seqs [RWordB, lit ''top'', RPlus [Space], lit ''secret'', ROpt (RSym slash_dash),
           lit ''sci'', RWordB],
     seqs [RWordB, lit ''ts'', RPlus [Space], lit ''w'', ROpt (lit ''ith''), RPlus [Space],
           lit ''sci'', RWordB],
     seqs [RWordB, lit ''sci'', RPlus [Space], lit ''clearance'', RWordB],
     seqs [RWordB, lit ''sci'', RPlus [Space], lit ''eligible'', RWordB]]"

text \<open>
  \<^verbatim>\<open>\btop\s+secret\b\<close>
  \<^verbatim>\<open>\bts\s+clearance\b\<close>
  \<^verbatim>\<open>\bts\s+eligible\b\<close>
  \<^verbatim>\<open>(?<![/-])\bts\b(?![/-])\<close>
\<close>

definition TOP_SECRET_patterns :: "regex list" where
  "TOP_SECRET_patterns = [
     seqs [RWordB, lit ''top'', RPlus [Space], lit ''secret'', RWordB],
     seqs [RWordB, lit ''ts'', RPlus [Space], lit ''clearance'', RWordB],
     seqs [RWordB, lit ''ts'', RPlus [Space], lit ''eligible'', RWordB],
     seqs [RNotBehind [slash_dash], RWordB, lit ''ts'', RWordB, RNotAhead (RSym slash_dash)]]"

text \<open>
  \<^verbatim>\<open>\bsecret\s+clearance\b\<close>
  \<^verbatim>\<open>\bsecret\s+eligible\b\<close>
  \<^verbatim>\<open>\bactive\s+secret\b\<close>
  \<^verbatim>\<open>\bcurrent\s+secret\b\<close>
  \<^verbatim>\<open>(?<!top\s)\bsecret\b(?!\s+service)\<close>
\<close>

definition SECRET_patterns :: "regex list" where
  "SECRET_patterns = [
     seqs [RWordB, lit ''secret'', RPlus [Space], lit ''clearance'', RWordB],
     seqs [RWordB, lit ''secret'', RPlus [Space], lit ''eligible'', RWordB],
     seqs [RWordB, lit ''active'', RPlus [Space], lit ''secret'', RWordB],
     seqs [RWordB, lit ''current'', RPlus [Space], lit ''secret'', RWordB],
     seqs [RNotBehind [[Lit CHR ''t''], [Lit CHR ''o''], [Lit CHR ''p''], [Space]], RWordB,
           lit ''secret'', RWordB, RNotAhead (seqs [RPlus [Space], lit ''service''])]]"

text \<open>
  \<^verbatim>\<open>\bpublic\s+trust\b\<close>
  \<^verbatim>\<open>\bmoderate\s+risk\b\<close>
  \<^verbatim>\<open>\bhigh\s+risk\s+public\s+trust\b\<close>
  \<^verbatim>\<open>\bmbi\b\<close>
\<close>

definition PUBLIC_TRUST_patterns :: "regex list" where
  "PUBLIC_TRUST_patterns = [
     seqs [RWordB, lit ''public'', RPlus [Space], lit ''trust'', RWordB],
     seqs [RWordB, lit ''moderate'', RPlus [Space], lit ''risk'', RWordB],
     seqs [RWordB, lit ''high'', RPlus [Space], lit ''risk'', RPlus [Space], lit ''public'',
           RPlus [Space], lit ''trust'', RWordB],
     seqs [RWordB, lit ''mbi'', RWordB]]"

definition CLEARANCE_PATTERNS :: "(ClearanceLevel \<times> regex list) list" where
  "CLEARANCE_PATTERNS = [
     (TS_SCI, TS_SCI_patterns),
     (TOP_SECRET, TOP_SECRET_patterns),
     (SECRET, SECRET_patterns),
     (PUBLIC_TRUST, PUBLIC_TRUST_patterns)]"

text \<open>\<open>CLEARANCE_PATTERNS.get(level, [])\<close>.\<close>

definition patterns_of :: "ClearanceLevel \<Rightarrow> regex list" where
  "patterns_of level = (case map_of CLEARANCE_PATTERNS level of Some ps \<Rightarrow> ps | None \<Rightarrow> [])"

text \<open>The inner loop: does any pattern of the list match?\<close>

fun any_pattern_matches :: "regex list \<Rightarrow> string \<Rightarrow> bool" where
  "any_pattern_matches [] text_lower = False"
| "any_pattern_matches (pattern # patterns) text_lower =
     (if re_search pattern text_lower \<noteq> None then True
      else any_pattern_matches patterns text_lower)"

text \<open>The outer loop over the levels, highest first.\<close>

fun first_matching_level :: "ClearanceLevel list \<Rightarrow> string \<Rightarrow> ClearanceLevel" where
  "first_matching_level [] text_lower = NONE"
| "first_matching_level (level # levels) text_lower =
     (if any_pattern_matches (patterns_of level) text_lower then level
      else first_matching_level levels text_lower)"

definition detect_clearance_from_text :: "string \<Rightarrow> ClearanceLevel" where
  "detect_clearance_from_text txt =
     (if txt = [] then NONE
      else first_matching_level [TS_SCI, TOP_SECRET, SECRET, PUBLIC_TRUST] (lower txt))"

definition meets_clearance_requirement :: "ClearanceLevel \<Rightarrow> ClearanceLevel \<Rightarrow> bool" where
  "meets_clearance_requirement resume_clearance job_clearance =
     (level_value resume_clearance \<ge> level_value job_clearance)"

fun clearance_to_string :: "ClearanceLevel \<Rightarrow> string" where
  "clearance_to_string NONE = ''None Required''"
| "clearance_to_string PUBLIC_TRUST = ''Public Trust''"
| "clearance_to_string SECRET = ''Secret''"
| "clearance_to_string TOP_SECRET = ''Top Secret''"
| "clearance_to_string TS_SCI = ''TS/SCI''"


section \<open>Library calls\<close>

text \<open>
  What the code takes from outside the repository is a parameter of the model: the clock,
  \<open>datetime.strptime\<close> and the embedding service. Only the year and the month of a
  \<open>datetime\<close> are read by the code. \<open>strptime\<close> gets the text and the format and returns
  \<open>None\<close> where Python raises \<open>ValueError\<close>. The clock is read as one value: time does not
  pass during a call.
\<close>

record datetime =
  year :: int
  month :: int
  day :: int

record library =
  now :: datetime
  strptime :: "string \<Rightarrow> string \<Rightarrow> datetime option"
  encode :: "string \<Rightarrow> real list"
  cosine_similarity :: "real list \<Rightarrow> real list \<Rightarrow> real"

text \<open>The decimal numeral of a string of digits (\<open>int\<close> and \<open>float\<close> of a match of \<open>\d+\<close>).\<close>

definition digit_value :: "char \<Rightarrow> nat" where
  "digit_value c = (case map_of (zip ''0123456789'' [0 ..< 10]) c of Some d \<Rightarrow> d | None \<Rightarrow> 0)"

definition nat_of_digits :: "string \<Rightarrow> nat" where
  "nat_of_digits s = foldl (\<lambda>n c. 10 * n + digit_value c) 0 s"

text \<open>\<open>str\<close> of a natural number, as an f-string prints the \<open>len\<close> of a list.\<close>

fun digits_of :: "nat \<Rightarrow> nat \<Rightarrow> string" where
  "digits_of 0 n = []"
| "digits_of (Suc fuel) n =
     (if n < 10 then [''0123456789'' ! n]
      else digits_of fuel (n div 10) @ [''0123456789'' ! (n mod 10)])"

definition str_nat :: "nat \<Rightarrow> string" where
  "str_nat n = digits_of (Suc n) n"

text \<open>
  \<open>round(x, ndigits)\<close> on a float, over the reals: to the nearest multiple of
  \<open>10 ^ -ndigits\<close>, a tie to the even one.
\<close>

definition py_round :: "real \<Rightarrow> nat \<Rightarrow> real" where
  "py_round x ndigits =
     (let p = 10 ^ ndigits;
          y = x * p;
          f = \<lfloor>y\<rfloor>;
          d = y - of_int f
      in (if d < 1 / 2 then of_int f
          else if d > 1 / 2 then of_int (f + 1)
          else if even f then of_int f else of_int (f + 1)) / p)"


section \<open>Experience scorer (job_matcher/scoring/experience_scorer.py)\<close>

text \<open>
  A work entry as the scorer gets it: the dictionary with the keys \<open>start_date\<close>,
  \<open>end_date\<close> and \<open>is_current\<close>; a key that is missing reads as \<open>None\<close> and \<open>False\<close>.
\<close>

record entry =
  entry_start_date :: "string option"
  entry_end_date :: "string option"
  entry_is_current :: bool

definition date_formats :: "string list" where
  "date_formats = [''%Y-%m-%d'', ''%Y-%m'', ''%Y'', ''%m/%Y'', ''%m-%Y'', ''%B %Y'', ''%b %Y'']"

text \<open>The loop over the formats: the first one \<open>strptime\<close> accepts.\<close>

fun try_formats :: "library \<Rightarrow> string \<Rightarrow> string list \<Rightarrow> datetime option" where
  "try_formats lib date_str [] = None"
| "try_formats lib date_str (fmt # fmts) =
     (case strptime lib date_str fmt of
        Some d \<Rightarrow> Some d
      | None \<Rightarrow> try_formats lib date_str fmts)"

text \<open>\<^verbatim>\<open>\b(19|20)\d{2}\b\<close>\<close>

definition year_pattern :: regex where
  "year_pattern = seqs [RWordB, RGroup (ROr (lit ''19'') (lit ''20'')), RSym [Digit], RSym [Digit],
     RWordB]"

text \<open>
  \<open>_parse_date\<close>. The year the pattern finds is between 1900 and 2099, so the
  \<open>datetime\<close> built from it never raises.
\<close>

definition parse_date :: "library \<Rightarrow> string option \<Rightarrow> datetime option" where
  "parse_date lib date_str =
     (case date_str of
        None \<Rightarrow> None
      | Some s0 \<Rightarrow>
          if s0 = [] then None
          else (let s = strip s0
            in if lower s \<in> set [''present'', ''current'', ''now''] then Some (now lib)
               else (case try_formats lib s date_formats of
                  Some d \<Rightarrow> Some d
                | None \<Rightarrow>
                   (case re_search year_pattern s of
                      Some year_match \<Rightarrow>
                        Some \<lparr>year = int (nat_of_digits (group0 year_match)), month = 1, day = 1\<rparr>
                    | None \<Rightarrow> None))))"

text \<open>\<open>_calculate_entry_duration\<close>, in months.\<close>

definition months_between :: "datetime \<Rightarrow> datetime \<Rightarrow> int" where
  "months_between start end = max 0 ((year end - year start) * 12 + (month end - month start))"

definition calculate_entry_duration :: "library \<Rightarrow> entry \<Rightarrow> int" where
  "calculate_entry_duration lib e =
     (let start = parse_date lib (entry_start_date e);
          end = parse_date lib (entry_end_date e)
      in case start of
           None \<Rightarrow> 30
         | Some st \<Rightarrow>
            (case end of
               None \<Rightarrow> if entry_is_current e then months_between st (now lib) else 24
             | Some en \<Rightarrow> months_between st en))"

definition estimate_years_from_entries :: "library \<Rightarrow> entry list \<Rightarrow> real" where
  "estimate_years_from_entries lib entries =
     (if entries = [] then 0
      else real_of_int (foldl (\<lambda>total_months e. total_months + calculate_entry_duration lib e) 0 entries)
           / 12)"

text \<open>
  \<open>score\<close>. The argument \<open>experience_entries\<close> is \<open>None\<close> or a list; an empty list is as
  good as \<open>None\<close> for the test \<open>elif experience_entries\<close>.
\<close>

definition ExperienceScorer_score ::
  "library \<Rightarrow> real option \<Rightarrow> int \<Rightarrow> entry list option \<Rightarrow> real" where
  "ExperienceScorer_score lib resume_years job_min_years experience_entries =
     (if job_min_years \<le> 0 then 1
      else (case (case resume_years of
                    Some y \<Rightarrow> Some y
                  | None \<Rightarrow>
                     (case experience_entries of
                        None \<Rightarrow> None
                      | Some entries \<Rightarrow>
                          if entries \<noteq> [] then Some (estimate_years_from_entries lib entries)
                          else None)) of
              None \<Rightarrow> 1 / 2
            | Some years \<Rightarrow>
                if years \<ge> real_of_int job_min_years then 1
                else if years \<le> 0 then 0
                else years / real_of_int job_min_years))"

text \<open>
  The patterns of \<open>estimate_years_from_text\<close>, in the order of the list:
  \<^verbatim>\<open>(\d+)\+?\s*(?:years?|yrs?)(?:\s+of)?\s*(?:experience|exp)\<close>
  \<^verbatim>\<open>(?:over|more than|>\s*)\s*(\d+)\s*(?:years?|yrs?)\<close>
  \<^verbatim>\<open>(\d+)\+\s*(?:years?|yrs?)\<close>
  \<^verbatim>\<open>(?:experience|exp)[:\s]+(\d+)\s*(?:years?|yrs?)\<close>
\<close>

definition years_or_yrs :: regex where
  "years_or_yrs = ROr (seqs [lit ''year'', ROpt (lit ''s'')]) (seqs [lit ''yr'', ROpt (lit ''s'')])"

definition experience_or_exp :: regex where
  "experience_or_exp = ROr (lit ''experience'') (lit ''exp'')"

definition years_patterns :: "regex list" where
  "years_patterns = [
     seqs [RGroup (RPlus [Digit]), ROpt (lit ''+''), RStar [Space], years_or_yrs,
           ROpt (seqs [RPlus [Space], lit ''of'']), RStar [Space], experience_or_exp],
     seqs [alts [lit ''over'', lit ''more than'', seqs [lit ''>'', RStar [Space]]], RStar [Space],
           RGroup (RPlus [Digit]), RStar [Space], years_or_yrs],
     seqs [RGroup (RPlus [Digit]), lit ''+'', RStar [Space], years_or_yrs],
     seqs [experience_or_exp, RPlus [Lit CHR '':'', Space], RGroup (RPlus [Digit]), RStar [Space],
           years_or_yrs]]"

text \<open>
  The loop over the patterns. \<open>float(match.group(1))\<close> is the number the digits spell; a
  match with no first group (\<open>IndexError\<close>) goes on to the next pattern.
\<close>

fun first_years_match :: "regex list \<Rightarrow> string \<Rightarrow> real option" where
  "first_years_match [] text_lower = None"
| "first_years_match (pattern # patterns) text_lower =
     (case re_search pattern text_lower of
        None \<Rightarrow> first_years_match patterns text_lower
      | Some m \<Rightarrow>
         (case groups m of
            [] \<Rightarrow> first_years_match patterns text_lower
          | g # _ \<Rightarrow> Some (real (nat_of_digits g))))"

definition estimate_years_from_text :: "string \<Rightarrow> real option" where
  "estimate_years_from_text txt =
     (if txt = [] then None else first_years_match years_patterns (lower txt))"

definition estimate_from_positions :: "int \<Rightarrow> real" where
  "estimate_from_positions num_positions =
     (if num_positions \<le> 0 then 0 else real_of_int num_positions * (5 / 2))"


section \<open>Resume records (resume_parser/models/resume.py)\<close>

text \<open>
  A field whose name another record already uses carries the record's name in front:
  \<open>contact_location\<close>, \<open>work_company\<close>, \<open>work_description\<close>, \<open>work_location\<close>,
  \<open>section_name\<close>.
\<close>

record ContactInfo =
  email :: "string option"
  phone :: "string option"
  contact_location :: "string option"
  linkedin :: "string option"
  name :: "string option"

record WorkExperience =
  work_company :: "string option"
  role :: "string option"
  start_date :: "string option"
  end_date :: "string option"
  work_description :: "string option"
  work_location :: "string option"
  is_current :: bool

record Education =
  institution :: "string option"
  degree :: "string option"
  field_of_study :: "string option"
  graduation_date :: "string option"
  gpa :: "string option"
  honors :: "string option"

record ParsedSection =
  section_name :: string
  content :: string
  start_index :: int
  end_index :: int

text \<open>The dictionary \<open>sections\<close> is an association list: the keys in insertion order.\<close>

record Resume =
  raw_text :: string
  contact :: ContactInfo
  skills :: "string list"
  experience :: "WorkExperience list"
  education :: "Education list"
  sections :: "(string \<times> ParsedSection) list"
  file_path :: "string option"
  file_type :: "string option"
  parse_errors :: "string list"

definition ContactInfo_default :: ContactInfo where
  "ContactInfo_default =
     \<lparr>email = None, phone = None, contact_location = None, linkedin = None, name = None\<rparr>"

definition Resume_default :: Resume where
  "Resume_default = \<lparr>raw_text = [], contact = ContactInfo_default, skills = [],
     experience = [], education = [], sections = [], file_path = None, file_type = None,
     parse_errors = []\<rparr>"


section \<open>Jobs (job_matcher/models/job.py)\<close>

text \<open>The field \<open>job_id\<close> of a job is \<open>job_ident\<close> here: a match result has a \<open>job_id\<close> too.\<close>

record Job =
  title :: string
  company :: string
  description :: string
  job_ident :: string
  clearance_level :: ClearanceLevel
  required_skills :: "string list"
  preferred_skills :: "string list"
  min_experience_years :: int
  location :: "string option"
  salary_min :: "int option"
  salary_max :: "int option"
  is_remote :: bool
  department :: "string option"
  employment_type :: string


section \<open>Semantic scorer (job_matcher/scoring/semantic_scorer.py)\<close>

definition SemanticScorer_score ::
  "library \<Rightarrow> string \<Rightarrow> string \<Rightarrow> real list option \<Rightarrow> real list option \<Rightarrow> real" where
  "SemanticScorer_score lib resume_text job_text resume_embedding job_embedding =
     (if resume_text = [] \<or> job_text = [] then 0
      else (let resume_emb = (case resume_embedding of
                                None \<Rightarrow> encode lib resume_text | Some e \<Rightarrow> e);
                job_emb = (case job_embedding of
                             None \<Rightarrow> encode lib job_text | Some e \<Rightarrow> e);
                similarity = cosine_similarity lib resume_emb job_emb
            in max 0 (min 1 similarity)))"

section \<open>Tiers and explanations (job_matcher/models/match_result.py, continued)\<close>

text \<open>
  \<open>UPSKILLING_RECOMMENDATIONS\<close>: for each skill the learning path, the resources and the
  estimated time.
\<close>

definition UPSKILLING_RECOMMENDATIONS :: "(string \<times> string \<times> string list \<times> string) list" where
  "UPSKILLING_RECOMMENDATIONS = [
     (''kubernetes'', ''Container orchestration for cloud-native applications'',
        [''Kubernetes.io docs'', ''CKAD certification'', ''KodeKloud''], ''2-3 months''),
     (''docker'', ''Containerization fundamentals'',
        [''Docker official docs'', ''Docker Captain tutorials''], ''2-4 weeks''),
     (''aws'', ''Cloud computing with Amazon Web Services'',
        [''AWS Free Tier'', ''AWS Certified Cloud Practitioner''], ''1-2 months''),
     (''terraform'', ''Infrastructure as Code'',
        [''Terraform tutorials'', ''HashiCorp certification''], ''3-4 weeks''),
     (''python'', ''General-purpose programming language'',
        [''Python.org tutorial'', ''Real Python'', ''Codecademy''], ''2-3 months''),
     (''react'', ''Modern frontend development with React'',
        [''React.dev'', ''Scrimba'', ''Frontend Masters''], ''1-2 months''),
     (''typescript'', ''Type-safe JavaScript development'',
        [''TypeScript Handbook'', ''Execute Program''], ''2-4 weeks''),
     (''graphql'', ''Modern API query language'',
        [''GraphQL.org'', ''Apollo tutorials''], ''2-3 weeks''),
     (''machine learning'', ''AI and statistical modeling'',
        [''Coursera ML course'', ''fast.ai'', ''Kaggle''], ''3-6 months''),
     (''postgresql'', ''Advanced relational database'',
        [''PostgreSQL docs'', ''pgexercises.com''], ''3-4 weeks'')]"

definition get_tier :: "MatchResult \<Rightarrow> string" where
  "get_tier self =
     (if disqualified self then ''Disqualified''
      else if score self \<ge> 85 then ''Excellent''
      else if score self \<ge> 70 then ''Strong''
      else if score self \<ge> 55 then ''Good''
      else if score self \<ge> 40 then ''Fair''
      else ''Weak'')"

text \<open>\<open>sep.join(parts)\<close>.\<close>

fun join :: "string \<Rightarrow> string list \<Rightarrow> string" where
  "join sep [] = []"
| "join sep [p] = p"
| "join sep (p # q # ps) = p @ sep @ join sep (q # ps)"

text \<open>An optional string inside an f-string: \<open>None\<close> prints as \<open>None\<close>.\<close>

definition str_option :: "string option \<Rightarrow> string" where
  "str_option v = (case v of None \<Rightarrow> ''None'' | Some s \<Rightarrow> s)"

definition generate_explanation :: "MatchResult \<Rightarrow> string" where
  "generate_explanation self =
     (if disqualified self
      then ''Not qualified: '' @ str_option (disqualification_reason self)
      else (let tier = get_tier self;
                assessment =
                  (if tier = ''Excellent''
                     then ''Outstanding match with strong alignment across all criteria.''
                   else if tier = ''Strong''
                     then ''Strong candidate with good technical and experience fit.''
                   else if tier = ''Good''
                     then ''Solid match with some areas for growth.''
                   else if tier = ''Fair''
                     then ''Moderate fit - may require additional training.''
                   else ''Limited match - significant gaps identified.'');
                matched_line =
                  (if matched_skills self \<noteq> []
                   then [''Matches '' @ str_nat (length (matched_skills self)) @ '' key skills: ''
                         @ join '', '' (take 5 (matched_skills self))
                         @ (if length (matched_skills self) > 5 then ''...'' else [])
                         @ ''.'']
                   else []);
                missing_line =
                  (if missing_required_skills self \<noteq> []
                   then [''Missing '' @ str_nat (length (missing_required_skills self))
                         @ '' required skills: ''
                         @ join '', '' (take 3 (missing_required_skills self))
                         @ (if length (missing_required_skills self) > 3 then ''...'' else [])
                         @ ''.'']
                   else []);
                clearance_line =
                  (if clearance_met self then [''Meets security clearance requirements.'']
                   else [])
            in join '' '' ([assessment] @ matched_line @ missing_line @ clearance_line)))"

section \<open>The matcher (job_matcher/matcher.py)\<close>

record JobMatcher =
  semantic_weight :: real
  skill_weight :: real
  experience_weight :: real
  skill_scorer :: SkillScorer

text \<open>\<open>__init__\<close>: the weights must sum to one, or the constructor raises \<open>ValueError\<close>.\<close>

datatype error = ValueError | FileNotFoundError

definition JobMatcher_init :: "real \<Rightarrow> real \<Rightarrow> real \<Rightarrow> error + JobMatcher" where
  "JobMatcher_init sem_w skill_w exp_w =
     (let total = sem_w + skill_w + exp_w
      in if \<not> \<bar>total - 1\<bar> < 1 / 100 then Inl ValueError
         else Inr \<lparr>semantic_weight = sem_w, skill_weight = skill_w, experience_weight = exp_w,
                   skill_scorer = SkillScorer_default\<rparr>)"

text \<open>\<open>JobMatcher()\<close>: the default weights.\<close>

definition JobMatcher_default :: JobMatcher where
  "JobMatcher_default = \<lparr>semantic_weight = 4 / 10, skill_weight = 4 / 10,
     experience_weight = 2 / 10, skill_scorer = SkillScorer_default\<rparr>"

definition estimate_experience_years :: "Resume \<Rightarrow> real option" where
  "estimate_experience_years resume =
     (case (if raw_text resume \<noteq> [] then estimate_years_from_text (raw_text resume) else None) of
        Some years \<Rightarrow> Some years
      | None \<Rightarrow>
          if experience resume \<noteq> []
          then Some (estimate_from_positions (int (length (experience resume))))
          else None)"

definition get_upskilling_recommendations :: "string list \<Rightarrow> string list" where
  "get_upskilling_recommendations missing_skills =
     map (\<lambda>s. let skill_lower = lower s;
                   canonical = get_canonical_skill s
               in case map_of UPSKILLING_RECOMMENDATIONS skill_lower of
                    Some (path, resources, time) \<Rightarrow> ''Learn '' @ canonical @ '': '' @ path
                  | None \<Rightarrow> ''Develop '' @ canonical @ '' skills'')
       (take 5 missing_skills)"

definition entry_of :: "WorkExperience \<Rightarrow> entry" where
  "entry_of w = \<lparr>entry_start_date = start_date w, entry_end_date = end_date w,
     entry_is_current = is_current w\<rparr>"

definition JobMatcher_match ::
  "library \<Rightarrow> JobMatcher \<Rightarrow> Resume \<Rightarrow> Job \<Rightarrow> real list option \<Rightarrow> real list option
     \<Rightarrow> MatchResult" where
  "JobMatcher_match lib self resume job resume_embedding job_embedding =
     (let resume_text = raw_text resume;
          resume_skills = skills resume;
          resume_experience = experience resume;
          resume_clearance = detect_clearance_from_text resume_text
      in if \<not> meets_clearance_requirement resume_clearance (clearance_level job)
         then MatchResult_default
                \<lparr>score := 0,
                 disqualified := True,
                 disqualification_reason := Some (''Clearance requirement not met. ''
                    @ ''Job requires '' @ clearance_to_string (clearance_level job) @ '', ''
                    @ ''resume shows '' @ clearance_to_string resume_clearance @ ''.''),
                 clearance_met := False,
                 job_id := Some (job_ident job),
                 job_title := Some (title job),
                 job_company := Some (company job)\<rparr>
         else (let semantic = SemanticScorer_score lib resume_text (description job)
                                resume_embedding job_embedding;
                   skill_result = SkillScorer_score (skill_scorer self) resume_skills
                                    (required_skills job) (preferred_skills job);
                   resume_years = estimate_experience_years resume;
                   experience_sc = ExperienceScorer_score lib resume_years
                                     (min_experience_years job)
                                     (if resume_experience \<noteq> []
                                      then Some (map entry_of resume_experience) else None);
                   ffx_score = (semantic_weight self * semantic
                                + skill_weight self * skill_match_score skill_result
                                + experience_weight self * experience_sc) * 100;
                   upskilling = get_upskilling_recommendations
                                  (missing_required skill_result @ missing_preferred skill_result);
                   result = MatchResult_default
                     \<lparr>score := py_round ffx_score 1,
                      semantic_score := py_round semantic 4,
                      skill_score := py_round (skill_match_score skill_result) 4,
                      experience_score := py_round experience_sc 4,
                      matched_skills := skill_match_matched skill_result,
                      missing_required_skills := missing_required skill_result,
                      missing_preferred_skills := missing_preferred skill_result,
                      skill_gaps := gaps skill_result,
                      upskilling_recommendations := upskilling,
                      clearance_met := True,
                      job_id := Some (job_ident job),
                      job_title := Some (title job),
                      job_company := Some (company job)\<rparr>
               in result\<lparr>explanation := generate_explanation result\<rparr>))"

text \<open>
  \<open>results.sort(key=lambda r: r.score, reverse=True)\<close>: a stable sort, highest score
  first; results of equal score keep their order.
\<close>

definition sort_by_score_descending :: "MatchResult list \<Rightarrow> MatchResult list" where
  "sort_by_score_descending results = rev (sort_key score (rev results))"

definition match_batch ::
  "library \<Rightarrow> JobMatcher \<Rightarrow> Resume \<Rightarrow> Job list \<Rightarrow> real list option \<Rightarrow> bool
     \<Rightarrow> MatchResult list" where
  "match_batch lib self resume jobs resume_embedding sort_by_score =
     (if jobs = [] then []
      else (let resume_emb =
                  (case resume_embedding of
                     None \<Rightarrow> if raw_text resume \<noteq> [] then Some (encode lib (raw_text resume))
                              else None
                   | Some e \<Rightarrow> Some e);
                results = map (\<lambda>job. JobMatcher_match lib self resume job resume_emb None) jobs
            in if sort_by_score then sort_by_score_descending results else results))"

text \<open>
  The call \<open>match_batch(resume, jobs)\<close> that gives no further argument: the parameters
  \<open>resume_embedding\<close> and \<open>sort_by_score\<close> take the defaults of the signature, \<open>None\<close> and
  \<open>True\<close>.
\<close>

definition match_batch_defaults ::
  "library \<Rightarrow> JobMatcher \<Rightarrow> Resume \<Rightarrow> Job list \<Rightarrow> MatchResult list" where
  "match_batch_defaults lib self resume jobs = match_batch lib self resume jobs None True"

text \<open>\<open>get_top_matches\<close>: the sorted batch, filtered, cut to \<open>top_k\<close>.\<close>

definition get_top_matches ::
  "library \<Rightarrow> JobMatcher \<Rightarrow> Resume \<Rightarrow> Job list \<Rightarrow> nat \<Rightarrow> real \<Rightarrow> bool \<Rightarrow> MatchResult list" where
  "get_top_matches lib self resume jobs top_k min_score require_clearance =
     (let all_results = match_batch lib self resume jobs None True;
          filtered = filter (\<lambda>r. \<not> (require_clearance \<and> disqualified r) \<and> score r \<ge> min_score)
                       all_results
      in take top_k filtered)"


section \<open>The resume parser (resume_parser/parser.py)\<close>

text \<open>
  The five extractors are parameters: each gets the text (and the content of its
  section, if the section was found) and either returns its result or raises an
  exception, which is the message \<open>str(e)\<close> of the exception here.
\<close>

datatype 'a raises = Returns 'a | Raises string

record extractors =
  section_extractor :: "string \<Rightarrow> (string \<times> ParsedSection) list raises"
  contact_extractor :: "string \<Rightarrow> string option \<Rightarrow> ContactInfo raises"
  skill_extractor :: "string \<Rightarrow> string option \<Rightarrow> string list raises"
  experience_extractor :: "string \<Rightarrow> string option \<Rightarrow> WorkExperience list raises"
  education_extractor :: "string \<Rightarrow> string option \<Rightarrow> Education list raises"

text \<open>
  \<open>resume.sections.get(key, {}).content if key in resume.sections else None\<close>
\<close>

definition section_content :: "Resume \<Rightarrow> string \<Rightarrow> string option" where
  "section_content resume key =
     (case map_of (sections resume) key of
        Some sec \<Rightarrow> Some (content sec)
      | None \<Rightarrow> None)"

text \<open>
  \<open>_parse_content\<close>. Each \<open>try\<close> block either assigns the field or appends the message
  to \<open>parse_errors\<close>; the sections are read from the resume after the first block.
\<close>

definition parse_sections :: "extractors \<Rightarrow> Resume \<Rightarrow> Resume" where
  "parse_sections ex resume =
     (case section_extractor ex (raw_text resume) of
        Returns v \<Rightarrow> resume\<lparr>sections := v\<rparr>
      | Raises e \<Rightarrow>
          resume\<lparr>parse_errors := parse_errors resume @ [''Section extraction failed: '' @ e]\<rparr>)"

definition parse_contact :: "extractors \<Rightarrow> string option \<Rightarrow> Resume \<Rightarrow> Resume" where
  "parse_contact ex contact_section resume =
     (case contact_extractor ex (raw_text resume) contact_section of
        Returns v \<Rightarrow> resume\<lparr>contact := v\<rparr>
      | Raises e \<Rightarrow>
          resume\<lparr>parse_errors := parse_errors resume @ [''Contact extraction failed: '' @ e]\<rparr>)"

definition parse_skills :: "extractors \<Rightarrow> string option \<Rightarrow> Resume \<Rightarrow> Resume" where
  "parse_skills ex skills_section resume =
     (case skill_extractor ex (raw_text resume) skills_section of
        Returns v \<Rightarrow> resume\<lparr>skills := v\<rparr>
      | Raises e \<Rightarrow>
          resume\<lparr>parse_errors := parse_errors resume @ [''Skill extraction failed: '' @ e]\<rparr>)"

definition parse_experience :: "extractors \<Rightarrow> string option \<Rightarrow> Resume \<Rightarrow> Resume" where
  "parse_experience ex experience_section resume =
     (case experience_extractor ex (raw_text resume) experience_section of
        Returns v \<Rightarrow> resume\<lparr>experience := v\<rparr>
      | Raises e \<Rightarrow>
          resume\<lparr>parse_errors := parse_errors resume @ [''Experience extraction failed: '' @ e]\<rparr>)"

definition parse_education :: "extractors \<Rightarrow> string option \<Rightarrow> Resume \<Rightarrow> Resume" where
  "parse_education ex education_section resume =
     (case education_extractor ex (raw_text resume) education_section of
        Returns v \<Rightarrow> resume\<lparr>education := v\<rparr>
      | Raises e \<Rightarrow>
          resume\<lparr>parse_errors := parse_errors resume @ [''Education extraction failed: '' @ e]\<rparr>)"

text \<open>
  The result of \<open>_parse_content\<close> is \<open>Returns\<close> of the resume when no exception leaves the
  function; an exception that no \<open>try\<close> block catches would make it \<open>Raises\<close>. The text is
  read once, before the first block; no block changes \<open>raw_text\<close>.
\<close>

definition parse_content :: "extractors \<Rightarrow> Resume \<Rightarrow> Resume raises" where
  "parse_content ex resume0 =
     (let resume1 = parse_sections ex resume0;
          contact_section = section_content resume1 ''contact'';
          skills_section = section_content resume1 ''skills'';
          experience_section = section_content resume1 ''experience'';
          education_section = section_content resume1 ''education'';
          resume2 = parse_contact ex contact_section resume1;
          resume3 = parse_skills ex skills_section resume2;
          resume4 = parse_experience ex experience_section resume3;
          resume5 = parse_education ex education_section resume4
      in Returns resume5)"

text \<open>\<open>parse_text(text, source)\<close>; \<open>source\<close> is \<open>"text"\<close> when the caller gives none.\<close>

definition parse_text :: "extractors \<Rightarrow> string \<Rightarrow> string \<Rightarrow> Resume raises" where
  "parse_text ex txt source =
     parse_content ex (Resume_default\<lparr>raw_text := txt, file_type := Some source\<rparr>)"


section \<open>Notions used to state the properties\<close>

text \<open>The keys one entry of \<open>SKILL_SYNONYMS\<close> writes into the reverse lookup table.\<close>

definition entry_keys :: "string \<times> string list \<Rightarrow> string set" where
  "entry_keys e = insert (lower (fst e)) (lower ` set (snd e))"

text \<open>The points a resume gets for a job, and the points the job offers.\<close>

definition matched_points :: "string list \<Rightarrow> string list \<Rightarrow> string list \<Rightarrow> real" where
  "matched_points resume_skills required preferred =
     2 * real (card (normalized_set resume_skills \<inter> normalized_set required)) +
     1 * real (card (normalized_set resume_skills \<inter> normalized_set preferred))"

definition possible_points :: "string list \<Rightarrow> string list \<Rightarrow> real" where
  "possible_points required preferred =
     2 * real (card (normalized_set required)) +
     1 * real (card (normalized_set preferred))"

text \<open>
  A level matches a text when one of its patterns is found somewhere in the lower-cased
  text.
\<close>

definition level_matches :: "ClearanceLevel \<Rightarrow> string \<Rightarrow> bool" where
  "level_matches level txt = list_ex (\<lambda>p. re_search p (lower txt) \<noteq> None) (patterns_of level)"

section \<open>Values for the examples\<close>

text \<open>
  A library for the examples: the clock stands at June 2024, \<open>strptime\<close> reads the two
  dates of the example resume with the format \<open>%Y-%m\<close> as Python does and rejects every
  other text, and the embedding service finds any two texts similar to one half.
\<close>

definition example_library :: library where
  "example_library = \<lparr>
     now = \<lparr>year = 2024, month = 6, day = 15\<rparr>,
     strptime = (\<lambda>s fmt.
        if fmt = ''%Y-%m'' \<and> s = ''2010-01'' then Some \<lparr>year = 2010, month = 1, day = 1\<rparr>
        else if fmt = ''%Y-%m'' \<and> s = ''2020-01'' then Some \<lparr>year = 2020, month = 1, day = 1\<rparr>
        else None),
     encode = (\<lambda>s. [1]),
     cosine_similarity = (\<lambda>a b. 1 / 2)\<rparr>"

definition example_position :: WorkExperience where
  "example_position = \<lparr>work_company = Some ''Acme'', role = Some ''Software Engineer'',
     start_date = Some ''2010-01'', end_date = Some ''2020-01'', work_description = None,
     work_location = None, is_current = False\<rparr>"

definition example_resume :: Resume where
  "example_resume = Resume_default\<lparr>
     raw_text := ''Software engineer with Python experience'',
     skills := [''Python'', ''Django'', ''PostgreSQL''],
     experience := [example_position]\<rparr>"

definition example_job :: Job where
  "example_job = \<lparr>title = ''Senior Python Developer'', company = ''TechCorp'',
     description = ''Looking for a Python expert'', job_ident = ''job-1'',
     clearance_level = NONE, required_skills = [''Python'', ''Django''],
     preferred_skills = [''PostgreSQL''], min_experience_years = 5, location = None,
     salary_min = None, salary_max = None, is_remote = False, department = None,
     employment_type = ''Full-time''\<rparr>"

definition cleared_job :: Job where
  "cleared_job = example_job\<lparr>title := ''Intelligence Analyst'', job_ident := ''job-2'',
     clearance_level := TS_SCI\<rparr>"

text \<open>
  What one \<open>try\<close> block leaves behind: the messages it appends to \<open>parse_errors\<close> (none or
  one), and the value of its field (the extractor's result, or the default of the field).
\<close>

definition block_errors :: "string \<Rightarrow> 'a raises \<Rightarrow> string list" where
  "block_errors prefix outcome =
     (case outcome of Returns v \<Rightarrow> [] | Raises e \<Rightarrow> [prefix @ e])"

definition block_value :: "'a \<Rightarrow> 'a raises \<Rightarrow> 'a" where
  "block_value dflt outcome = (case outcome of Returns v \<Rightarrow> v | Raises e \<Rightarrow> dflt)"

text \<open>
  Extractors for the examples: the skill extractor raises, the section extractor finds
  a skills section, the others return a result.
\<close>

definition example_extractors :: extractors where
  "example_extractors = \<lparr>
     section_extractor = (\<lambda>t. Returns [(''skills'',
        \<lparr>section_name = ''skills'', content = ''Python, Django'', start_index = 0,
         end_index = 14\<rparr>)]),
     contact_extractor = (\<lambda>t s. Returns (ContactInfo_default\<lparr>name := Some ''Ada Lovelace''\<rparr>)),
     skill_extractor = (\<lambda>t s. Raises ''bad pattern''),
     experience_extractor = (\<lambda>t s. Returns [example_position]),
     education_extractor = (\<lambda>t s. Raises ''no degree'')\<rparr>"


section \<open>Properties of the string functions\<close>

lemmas lower_simps = lower_def lower_char_def ascii_uppercase_def ascii_lowercase_def
lemmas strip_simps = strip_def isspace_def whitespace_def

lemma lower_char_fixed: "c \<notin> set ascii_uppercase \<Longrightarrow> lower_char c = c"
proof -
  assume "c \<notin> set ascii_uppercase"
  then have "c \<notin> set (map fst (zip ascii_uppercase ascii_lowercase))"
    by (simp add: ascii_uppercase_def ascii_lowercase_def)
  then have "map_of (zip ascii_uppercase ascii_lowercase) c = None"
    by (simp only: map_of_eq_None_iff set_map not_False_eq_True)
  then show ?thesis by (simp add: lower_char_def)
qed

lemma lower_char_not_upper: "lower_char c \<notin> set ascii_uppercase"
proof (cases "c \<in> set ascii_uppercase")
  case True
  then show ?thesis
    by (auto simp add: lower_simps)
next
  case False
  then show ?thesis by (simp add: lower_char_fixed)
qed

lemma lower_char_idem: "lower_char (lower_char c) = lower_char c"
  by (rule lower_char_fixed) (rule lower_char_not_upper)

lemma lower_idem: "lower (lower s) = lower s"
  by (simp add: lower_def lower_char_idem)

lemma isspace_not_upper: "isspace c \<Longrightarrow> c \<notin> set ascii_uppercase"
  by (auto simp add: isspace_def whitespace_def ascii_uppercase_def)

lemma isspace_lower_char: "isspace (lower_char c) = isspace c"
proof (cases "c \<in> set ascii_uppercase")
  case True
  then show ?thesis
    by (auto simp add: lower_simps isspace_def whitespace_def)
next
  case False
  then show ?thesis by (simp add: lower_char_fixed)
qed

lemma dropWhile_isspace_lower:
  "dropWhile isspace (lower s) = lower (dropWhile isspace s)"
  by (induction s) (simp_all add: lower_def isspace_lower_char)

lemma strip_lower: "strip (lower s) = lower (strip s)"
proof -
  have "rev (lower s) = lower (rev s)" for s
    by (simp add: lower_def rev_map)
  then show ?thesis
    by (simp add: strip_def dropWhile_isspace_lower)
qed

lemma dropWhile_idem: "dropWhile P (dropWhile P xs) = dropWhile P xs"
  by (induction xs) simp_all

lemma dropWhile_fixed_iff: "dropWhile P xs = xs \<longleftrightarrow> (xs = [] \<or> \<not> P (hd xs))"
  by (cases xs) (auto dest: dropWhile_eq_Cons_conv [THEN iffD1])

lemma rstrip_keeps_head:
  assumes "dropWhile P xs = xs"
  shows "dropWhile P (rev (dropWhile P (rev xs))) = rev (dropWhile P (rev xs))"
proof (cases "rev (dropWhile P (rev xs))")
  case Nil
  show ?thesis unfolding Nil by simp
next
  case (Cons y ys)
  have "rev xs = takeWhile P (rev xs) @ dropWhile P (rev xs)" by simp
  then have "xs = rev (dropWhile P (rev xs)) @ rev (takeWhile P (rev xs))"
    by (metis rev_append rev_rev_ident)
  with Cons have "hd xs = y" and "xs \<noteq> []"
    by (metis append_Cons list.sel(1), metis append_Cons list.distinct(1))
  with assms have "\<not> P y" by (simp add: dropWhile_fixed_iff)
  with Cons show ?thesis by simp
qed

lemma strip_idem: "strip (strip s) = strip s"
proof -
  let ?t = "dropWhile isspace s"
  have "dropWhile isspace ?t = ?t" by (rule dropWhile_idem)
  then have "dropWhile isspace (rev (dropWhile isspace (rev ?t))) = rev (dropWhile isspace (rev ?t))"
    by (rule rstrip_keeps_head)
  then show ?thesis
    by (simp add: strip_def dropWhile_idem)
qed

lemma strip_lower_idem: "strip (lower (strip (lower s))) = strip (lower s)"
  by (simp add: strip_lower lower_idem strip_idem)

section \<open>The reverse lookup table\<close>

lemma map_of_fold_update:
  "map_of (fold (\<lambda>syn d. AList.update (f syn) c d) syns d) k =
     (if k \<in> f ` set syns then Some c else map_of d k)"
  by (induction syns arbitrary: d) (auto simp add: update_conv')

lemma map_of_add_entry:
  "map_of (add_entry e d) k = (if k \<in> entry_keys e then Some (fst e) else map_of d k)"
  by (cases e) (auto simp add: add_entry_def entry_keys_def map_of_fold_update update_conv')

lemma lookup_miss:
  "\<forall>e \<in> set es. k \<notin> entry_keys e \<Longrightarrow> map_of (fold add_entry es d) k = map_of d k"
  by (induction es arbitrary: d) (simp_all add: map_of_add_entry)

lemma lookup_source:
  "map_of (fold add_entry es d) k = Some v \<Longrightarrow>
     (\<exists>e \<in> set es. k \<in> entry_keys e \<and> v = fst e) \<or> map_of d k = Some v"
proof (induction es arbitrary: d)
  case Nil
  then show ?case by simp
next
  case (Cons e es)
  from Cons.prems have "map_of (fold add_entry es (add_entry e d)) k = Some v" by simp
  from Cons.IH [OF this] show ?case
    by (auto simp add: map_of_add_entry split: if_splits)
qed

lemma lookup_hit:
  "\<exists>e \<in> set es. k \<in> entry_keys e \<Longrightarrow>
     \<exists>e \<in> set es. k \<in> entry_keys e \<and> map_of (fold add_entry es d) k = Some (fst e)"
proof (induction es arbitrary: d)
  case Nil
  then show ?case by simp
next
  case (Cons e es)
  show ?case
  proof (cases "\<exists>e' \<in> set es. k \<in> entry_keys e'")
    case True
    from Cons.IH [OF this, of "add_entry e d"] show ?thesis by auto
  next
    case False
    with Cons.prems have k: "k \<in> entry_keys e" by auto
    from False have "map_of (fold add_entry es (add_entry e d)) k = map_of (add_entry e d) k"
      by (intro lookup_miss) simp
    with k show ?thesis by (simp add: map_of_add_entry)
  qed
qed


lemma lower_char_table_alphabet:
  "list_all (\<lambda>c. lower_char c = c) '' #+-./0123456789abcdefghijklmnopqrstuvwxyz''"
  by (simp add: lower_simps)

lemma lower_char_literal:
  "lower_char CHR '' '' = CHR '' ''" "lower_char CHR ''#'' = CHR ''#''" "lower_char CHR ''+'' = CHR ''+''"
  "lower_char CHR ''-'' = CHR ''-''" "lower_char CHR ''.'' = CHR ''.''" "lower_char CHR ''/'' = CHR ''/''"
  "lower_char CHR ''0'' = CHR ''0''" "lower_char CHR ''1'' = CHR ''1''" "lower_char CHR ''2'' = CHR ''2''"
  "lower_char CHR ''3'' = CHR ''3''" "lower_char CHR ''4'' = CHR ''4''" "lower_char CHR ''5'' = CHR ''5''"
  "lower_char CHR ''6'' = CHR ''6''" "lower_char CHR ''7'' = CHR ''7''" "lower_char CHR ''8'' = CHR ''8''"
  "lower_char CHR ''9'' = CHR ''9''" "lower_char CHR ''a'' = CHR ''a''" "lower_char CHR ''b'' = CHR ''b''"
  "lower_char CHR ''c'' = CHR ''c''" "lower_char CHR ''d'' = CHR ''d''" "lower_char CHR ''e'' = CHR ''e''"
  "lower_char CHR ''f'' = CHR ''f''" "lower_char CHR ''g'' = CHR ''g''" "lower_char CHR ''h'' = CHR ''h''"
  "lower_char CHR ''i'' = CHR ''i''" "lower_char CHR ''j'' = CHR ''j''" "lower_char CHR ''k'' = CHR ''k''"
  "lower_char CHR ''l'' = CHR ''l''" "lower_char CHR ''m'' = CHR ''m''" "lower_char CHR ''n'' = CHR ''n''"
  "lower_char CHR ''o'' = CHR ''o''" "lower_char CHR ''p'' = CHR ''p''" "lower_char CHR ''q'' = CHR ''q''"
  "lower_char CHR ''r'' = CHR ''r''" "lower_char CHR ''s'' = CHR ''s''" "lower_char CHR ''t'' = CHR ''t''"
  "lower_char CHR ''u'' = CHR ''u''" "lower_char CHR ''v'' = CHR ''v''" "lower_char CHR ''w'' = CHR ''w''"
  "lower_char CHR ''x'' = CHR ''x''" "lower_char CHR ''y'' = CHR ''y''" "lower_char CHR ''z'' = CHR ''z''"
  using lower_char_table_alphabet by simp_all

lemmas string_eq_simps = list.inject list.distinct char.inject simp_thms

lemma table_lower:
  "list_all (\<lambda>(c, syns). lower c = c \<and> list_all (\<lambda>s. lower s = s) syns) SKILL_SYNONYMS"
  unfolding SKILL_SYNONYMS_def lower_def
  by (simp only: list.map lower_char_literal list.pred_inject prod.case simp_thms)

lemma table_disjoint:
  "list_all (\<lambda>c. list_all (\<lambda>s. c \<noteq> s) (concat (map snd SKILL_SYNONYMS)))
     (map fst SKILL_SYNONYMS)"
  unfolding SKILL_SYNONYMS_def
  by (simp only: list.map concat.simps append.simps snd_conv fst_conv list.pred_inject
        string_eq_simps)

lemma strip_fixed:
  assumes "s \<noteq> []" and "\<not> isspace (hd s)" and "\<not> isspace (last s)"
  shows "strip s = s"
proof -
  from assms have "dropWhile isspace s = s"
    by (simp add: dropWhile_fixed_iff)
  moreover from assms have "dropWhile isspace (rev s) = rev s"
    by (simp add: dropWhile_fixed_iff hd_rev)
  ultimately show ?thesis by (simp add: strip_def)
qed

lemma table_strip:
  "list_all (\<lambda>c. c \<noteq> [] \<and> \<not> isspace (hd c) \<and> \<not> isspace (last c)) (map fst SKILL_SYNONYMS)"
  unfolding SKILL_SYNONYMS_def
  by (simp add: isspace_def whitespace_def)

lemma entry_keys_table:
  assumes "e \<in> set SKILL_SYNONYMS"
  shows "entry_keys e = insert (fst e) (set (snd e))"
proof -
  from table_lower assms have "lower (fst e) = fst e" and "\<forall>s \<in> set (snd e). lower s = s"
    by (auto simp add: list_all_iff)
  then show ?thesis by (simp add: entry_keys_def)
qed

lemma lookup_unique:
  assumes all: "list_all (\<lambda>(c', syns'). (k = c' \<or> k \<in> set syns') \<longrightarrow> c' = c) SKILL_SYNONYMS"
    and ex: "list_ex (\<lambda>(c', syns'). k = c' \<or> k \<in> set syns') SKILL_SYNONYMS"
  shows "map_of REVERSE_LOOKUP k = Some c"
proof -
  from ex obtain e0 where "e0 \<in> set SKILL_SYNONYMS" "k = fst e0 \<or> k \<in> set (snd e0)"
    by (auto simp add: list_ex_iff)
  then have "\<exists>e \<in> set SKILL_SYNONYMS. k \<in> entry_keys e"
    using entry_keys_table [of e0] by auto
  from lookup_hit [OF this, of "[]"] obtain e where e: "e \<in> set SKILL_SYNONYMS"
    "k \<in> entry_keys e" "map_of REVERSE_LOOKUP k = Some (fst e)"
    by (auto simp add: REVERSE_LOOKUP_def)
  from e(1) e(2) have "k = fst e \<or> k \<in> set (snd e)"
    by (simp add: entry_keys_table)
  with all e(1) have "fst e = c"
    by (auto simp add: list_all_iff)
  with e(3) show ?thesis by simp
qed

lemma lookup_absent:
  assumes "list_all (\<lambda>(c', syns'). k \<noteq> c' \<and> k \<notin> set syns') SKILL_SYNONYMS"
  shows "map_of REVERSE_LOOKUP k = None"
proof -
  have "k \<notin> entry_keys e" if "e \<in> set SKILL_SYNONYMS" for e
  proof -
    from assms that have "k \<noteq> fst e \<and> k \<notin> set (snd e)"
      by (auto simp add: list_all_iff)
    with that show ?thesis by (simp add: entry_keys_table)
  qed
  then have "\<forall>e \<in> set SKILL_SYNONYMS. k \<notin> entry_keys e" by blast
  from lookup_miss [OF this, of "[]"] show ?thesis
    by (simp add: REVERSE_LOOKUP_def)
qed

lemma lookup_canonical:
  assumes "map_of REVERSE_LOOKUP k = Some c"
  shows "c \<in> set (map fst SKILL_SYNONYMS)"
  using lookup_source [of SKILL_SYNONYMS "[]" k c] assms
  by (auto simp add: REVERSE_LOOKUP_def)

lemma canonical_lookup:
  assumes "c \<in> set (map fst SKILL_SYNONYMS)"
  shows "map_of REVERSE_LOOKUP c = Some c"
proof -
  from assms obtain e0 where e0: "e0 \<in> set SKILL_SYNONYMS" "fst e0 = c" by auto
  then have "\<exists>e \<in> set SKILL_SYNONYMS. c \<in> entry_keys e"
    using entry_keys_table [of e0] by auto
  from lookup_hit [OF this, of "[]"] obtain e where e: "e \<in> set SKILL_SYNONYMS"
    "c \<in> entry_keys e" "map_of REVERSE_LOOKUP c = Some (fst e)"
    by (auto simp add: REVERSE_LOOKUP_def)
  from table_disjoint assms have "\<forall>s \<in> set (concat (map snd SKILL_SYNONYMS)). c \<noteq> s"
    by (simp only: list_all_iff) blast
  with e(1) have "c \<notin> set (snd e)" by auto
  with e(1) e(2) have "fst e = c" by (simp add: entry_keys_table)
  with e(3) show ?thesis by simp
qed

lemma normalize_skill_canonical:
  assumes "c \<in> set (map fst SKILL_SYNONYMS)"
  shows "normalize_skill c = c"
proof -
  from table_strip assms have c: "c \<noteq> []" "\<not> isspace (hd c)" "\<not> isspace (last c)"
    by (simp_all only: list_all_iff) blast+
  from table_lower assms have "lower c = c"
    by (auto simp add: list_all_iff)
  with c have "strip (lower c) = c" by (simp add: strip_fixed)
  with c(1) canonical_lookup [OF assms] show ?thesis
    by (simp add: normalize_skill_def)
qed

lemma normalize_skill_idem: "normalize_skill (normalize_skill x) = normalize_skill x"
proof (cases "x = []")
  case True
  then show ?thesis by (simp add: normalize_skill_def)
next
  case False
  let ?k = "strip (lower x)"
  show ?thesis
  proof (cases "map_of REVERSE_LOOKUP ?k")
    case (Some c)
    with False have "normalize_skill x = c" by (simp add: normalize_skill_def)
    moreover from Some have "normalize_skill c = c"
      by (intro normalize_skill_canonical lookup_canonical)
    ultimately show ?thesis by simp
  next
    case None
    with False have nx: "normalize_skill x = ?k" by (simp add: normalize_skill_def)
    have "normalize_skill ?k = ?k"
    proof (cases "?k = []")
      case True
      then show ?thesis by (simp add: normalize_skill_def)
    next
      case False
      with None show ?thesis
        by (simp add: normalize_skill_def strip_lower_idem)
    qed
    with nx show ?thesis by simp
  qed
qed

lemma normalize_skill_hit:
  assumes "x \<noteq> []" and "strip (lower x) = k"
    and "list_all (\<lambda>(c', syns'). (k = c' \<or> k \<in> set syns') \<longrightarrow> c' = c) SKILL_SYNONYMS"
    and "list_ex (\<lambda>(c', syns'). k = c' \<or> k \<in> set syns') SKILL_SYNONYMS"
  shows "normalize_skill x = c"
  using assms(1,2) lookup_unique [OF assms(3,4)] by (simp add: normalize_skill_def)

lemma normalize_skill_miss:
  assumes "x \<noteq> []" and "strip (lower x) = k"
    and "list_all (\<lambda>(c', syns'). k \<noteq> c' \<and> k \<notin> set syns') SKILL_SYNONYMS"
  shows "normalize_skill x = k"
  using assms(1,2) lookup_absent [OF assms(3)] by (simp add: normalize_skill_def)

lemmas table_eval_simps = list.pred_inject list_ex_Nil_iff list_ex_Cons_iff prod.case list.set insert_iff empty_iff
  string_eq_simps

lemma normalize_K8s: "normalize_skill ''K8s'' = ''kubernetes''"
proof (rule normalize_skill_hit)
  show "''K8s'' \<noteq> []" by simp
  show "strip (lower ''K8s'') = ''k8s''" by (simp add: lower_simps strip_simps)
  show "list_all (\<lambda>(c', syns'). (''k8s'' = c' \<or> ''k8s'' \<in> set syns') \<longrightarrow> c' = ''kubernetes'')
          SKILL_SYNONYMS"
    unfolding SKILL_SYNONYMS_def by (simp only: table_eval_simps)
  show "list_ex (\<lambda>(c', syns'). ''k8s'' = c' \<or> ''k8s'' \<in> set syns') SKILL_SYNONYMS"
    unfolding SKILL_SYNONYMS_def by (simp only: table_eval_simps)
qed

lemma normalize_kube: "normalize_skill ''kube'' = ''kubernetes''"
proof (rule normalize_skill_hit)
  show "''kube'' \<noteq> []" by simp
  show "strip (lower ''kube'') = ''kube''" by (simp add: lower_simps strip_simps)
  show "list_all (\<lambda>(c', syns'). (''kube'' = c' \<or> ''kube'' \<in> set syns') \<longrightarrow> c' = ''kubernetes'')
          SKILL_SYNONYMS"
    unfolding SKILL_SYNONYMS_def by (simp only: table_eval_simps)
  show "list_ex (\<lambda>(c', syns'). ''kube'' = c' \<or> ''kube'' \<in> set syns') SKILL_SYNONYMS"
    unfolding SKILL_SYNONYMS_def by (simp only: table_eval_simps)
qed

lemma kubernetes_canonical: "''kubernetes'' \<in> set (map fst SKILL_SYNONYMS)"
  unfolding SKILL_SYNONYMS_def by (simp only: list.map fst_conv list.set insert_iff simp_thms)

text \<open>
  C1. Normalisation is idempotent on every string, and \<open>K8s\<close>, \<open>kubernetes\<close> and
  \<open>kube\<close> all normalise to the canonical form \<open>kubernetes\<close>.
\<close>

theorem normalize_skill_idempotent:
  "normalize_skill (normalize_skill x) = normalize_skill x \<and>
   normalize_skill ''K8s'' = ''kubernetes'' \<and>
   normalize_skill ''kubernetes'' = ''kubernetes'' \<and>
   normalize_skill ''kube'' = ''kubernetes''"
  using normalize_skill_idem normalize_K8s normalize_kube
    normalize_skill_canonical [OF kubernetes_canonical]
  by simp

section \<open>Equality of match results\<close>

lemma MatchResult_eq_score:
  "MatchResult_eq r1 (A_MatchResult r2) \<longleftrightarrow> \<bar>score r1 - score r2\<bar> < 1 / 100"
  by (simp add: MatchResult_eq_def)

lemma MatchResult_eq_not_transitive:
  "MatchResult_eq (MatchResult_default\<lparr>score := 0\<rparr>)
     (A_MatchResult (MatchResult_default\<lparr>score := 6 / 1000\<rparr>)) \<and>
   MatchResult_eq (MatchResult_default\<lparr>score := 6 / 1000\<rparr>)
     (A_MatchResult (MatchResult_default\<lparr>score := 12 / 1000\<rparr>)) \<and>
   \<not> MatchResult_eq (MatchResult_default\<lparr>score := 0\<rparr>)
     (A_MatchResult (MatchResult_default\<lparr>score := 12 / 1000\<rparr>))"
  by (simp add: MatchResult_eq_def)

text \<open>
  C10. Two match results are equal exactly when their composite scores differ by less
  than 0.01, whatever their other fields hold; the relation is not transitive.
\<close>

theorem MatchResult_eq_tolerance:
  "(\<forall>r1 r2. MatchResult_eq r1 (A_MatchResult r2) \<longleftrightarrow> \<bar>score r1 - score r2\<bar> < 1 / 100) \<and>
   (\<forall>r1 r2 r1' r2'. score r1' = score r1 \<and> score r2' = score r2 \<longrightarrow>
      MatchResult_eq r1' (A_MatchResult r2') = MatchResult_eq r1 (A_MatchResult r2)) \<and>
   (\<exists>r1 r2 r3. MatchResult_eq r1 (A_MatchResult r2) \<and> MatchResult_eq r2 (A_MatchResult r3) \<and>
      \<not> MatchResult_eq r1 (A_MatchResult r3))"
proof (intro conjI allI impI)
  show "MatchResult_eq r1 (A_MatchResult r2) \<longleftrightarrow> \<bar>score r1 - score r2\<bar> < 1 / 100" for r1 r2
    by (rule MatchResult_eq_score)
  show "MatchResult_eq r1' (A_MatchResult r2') = MatchResult_eq r1 (A_MatchResult r2)"
    if "score r1' = score r1 \<and> score r2' = score r2" for r1 r2 r1' r2'
    using that by (simp add: MatchResult_eq_score)
  show "\<exists>r1 r2 r3. MatchResult_eq r1 (A_MatchResult r2) \<and> MatchResult_eq r2 (A_MatchResult r3) \<and>
      \<not> MatchResult_eq r1 (A_MatchResult r3)"
    using MatchResult_eq_not_transitive by blast
qed

theorem MatchResult_eq_tolerance_witness:
  "MatchResult_eq (MatchResult_default\<lparr>score := 50, disqualified := True\<rparr>)
     (A_MatchResult (MatchResult_default\<lparr>score := 50, matched_skills := [''python'']\<rparr>)) =
   MatchResult_eq (MatchResult_default\<lparr>score := 50\<rparr>)
     (A_MatchResult (MatchResult_default\<lparr>score := 50\<rparr>))"
proof -
  have "score (MatchResult_default\<lparr>score := 50, disqualified := True\<rparr>) =
      score (MatchResult_default\<lparr>score := 50\<rparr>) \<and>
    score (MatchResult_default\<lparr>score := 50, matched_skills := [''python'']\<rparr>) =
      score (MatchResult_default\<lparr>score := 50\<rparr>)"
    by simp
  with MatchResult_eq_tolerance show ?thesis by blast
qed


section \<open>The skill score\<close>

lemma finite_normalized_set: "finite (normalized_set xs)"
  by (simp add: normalized_set_def)

lemma normalized_set_iff:
  "k \<in> normalized_set xs \<longleftrightarrow> (\<exists>s. s \<in> set xs \<and> s \<noteq> [] \<and> k = normalize_skill s)"
  by (auto simp add: normalized_set_def)

lemma normalized_set_mono: "set xs \<subseteq> set ys \<Longrightarrow> normalized_set xs \<subseteq> normalized_set ys"
  by (auto simp add: normalized_set_def)

lemma possible_points_zero_iff:
  "possible_points req pref = 0 \<longleftrightarrow> normalized_set req = {} \<and> normalized_set pref = {}"
proof -
  have "possible_points req pref = real (2 * card (normalized_set req) + card (normalized_set pref))"
    by (simp add: possible_points_def)
  then show ?thesis
    by (simp only: of_nat_eq_0_iff) (simp add: finite_normalized_set)
qed

lemma skill_score_default:
  "skill_match_score (SkillScorer_score SkillScorer_default res req pref) =
     (if possible_points req pref = 0 then 1 / 2
      else min (matched_points res req pref / possible_points req pref) 1)"
  by (simp add: SkillScorer_score_def SkillScorer_default_def Let_def matched_points_def
      possible_points_def mult.commute)

lemma matched_points_mono:
  assumes "set a \<subseteq> set b"
  shows "matched_points a req pref \<le> matched_points b req pref"
proof -
  from assms have sub: "normalized_set a \<subseteq> normalized_set b" by (rule normalized_set_mono)
  have "card (normalized_set a \<inter> normalized_set req) \<le> card (normalized_set b \<inter> normalized_set req)"
    using sub by (intro card_mono) (auto simp add: finite_normalized_set)
  moreover
  have "card (normalized_set a \<inter> normalized_set pref) \<le> card (normalized_set b \<inter> normalized_set pref)"
    using sub by (intro card_mono) (auto simp add: finite_normalized_set)
  ultimately show ?thesis by (simp add: matched_points_def)
qed

lemma possible_points_nonneg: "0 \<le> possible_points req pref"
  by (simp add: possible_points_def)

lemma skill_score_mono:
  assumes "set a \<subseteq> set b"
  shows "skill_match_score (SkillScorer_score SkillScorer_default a req pref)
       \<le> skill_match_score (SkillScorer_score SkillScorer_default b req pref)"
proof (cases "possible_points req pref = 0")
  case True
  then show ?thesis by (simp add: skill_score_default)
next
  case False
  have "matched_points a req pref / possible_points req pref
      \<le> matched_points b req pref / possible_points req pref"
    using matched_points_mono [OF assms] possible_points_nonneg
    by (rule divide_right_mono)
  then have "min (matched_points a req pref / possible_points req pref) 1
      \<le> min (matched_points b req pref / possible_points req pref) 1"
    by (rule min.mono) simp
  with False show ?thesis by (simp add: skill_score_default)
qed

text \<open>
  C3. With the default weights the score is
  \<open>(2 * |matched required| + |matched preferred|) / (2 * |required| + |preferred|)\<close>, at most 1,
  over the sets of normalised skills (the empty strings of the lists are dropped, then
  every skill is normalised, and a set holds each key once); it is one half when the
  job's two sets are empty, whatever the resume holds.
\<close>

theorem skill_score_formula:
  "skill_match_score (SkillScorer_score SkillScorer_default resume_skills required preferred) =
     (let S = {normalize_skill s | s. s \<in> set resume_skills \<and> s \<noteq> []};
          R = {normalize_skill s | s. s \<in> set required \<and> s \<noteq> []};
          P = {normalize_skill s | s. s \<in> set preferred \<and> s \<noteq> []}
      in if R = {} \<and> P = {} then 1 / 2
         else min ((2 * real (card (S \<inter> R)) + 1 * real (card (S \<inter> P)))
                   / (2 * real (card R) + 1 * real (card P))) 1)"
proof -
  have eq: "{normalize_skill s | s. s \<in> set xs \<and> s \<noteq> []} = normalized_set xs" for xs
    by (auto simp add: normalized_set_def)
  show ?thesis
    unfolding eq Let_def
    using skill_score_default [of resume_skills required preferred]
      possible_points_zero_iff [of required preferred]
    by (simp add: matched_points_def possible_points_def)
qed

text \<open>
  C4. Adding skills to the resume never lowers the score: if every skill of the list \<open>a\<close>
  is in the list \<open>b\<close>, the score with \<open>b\<close> is at least the score with \<open>a\<close>.
\<close>

theorem skill_score_monotonic:
  "set a \<subseteq> set b \<Longrightarrow>
     skill_match_score (SkillScorer_score SkillScorer_default a required preferred)
   \<le> skill_match_score (SkillScorer_score SkillScorer_default b required preferred)"
  by (rule skill_score_mono)


lemma normalize_to_canonical:
  assumes "x \<noteq> []" and "strip (lower x) = c" and "c \<in> set (map fst SKILL_SYNONYMS)"
  shows "normalize_skill x = c"
  using assms(1,2) canonical_lookup [OF assms(3)] by (simp add: normalize_skill_def)

lemmas canonical_eval_simps = list.map fst_conv list.set insert_iff empty_iff string_eq_simps

lemma normalize_Python: "normalize_skill ''Python'' = ''python''"
proof (rule normalize_to_canonical)
  show "''Python'' \<noteq> []" by simp
  show "strip (lower ''Python'') = ''python''" by (simp add: lower_simps strip_simps)
  show "''python'' \<in> set (map fst SKILL_SYNONYMS)"
    unfolding SKILL_SYNONYMS_def by (simp only: canonical_eval_simps)
qed

lemma normalize_Django: "normalize_skill ''Django'' = ''django''"
proof (rule normalize_to_canonical)
  show "''Django'' \<noteq> []" by simp
  show "strip (lower ''Django'') = ''django''" by (simp add: lower_simps strip_simps)
  show "''django'' \<in> set (map fst SKILL_SYNONYMS)"
    unfolding SKILL_SYNONYMS_def by (simp only: canonical_eval_simps)
qed

lemma skill_score_examples:
  "skill_match_score (SkillScorer_score SkillScorer_default [''Python''] [''Python'', ''Django''] []) = 1 / 2"
  "skill_match_score (SkillScorer_score SkillScorer_default [''Python'', ''Django'']
     [''Python'', ''Django''] []) = 1"
  "skill_match_score (SkillScorer_score SkillScorer_default [''Python''] [] []) = 1 / 2"
  by (simp_all add: skill_score_default matched_points_def possible_points_def normalized_set_def
      normalize_Python normalize_Django)

theorem skill_score_monotonic_witness:
  "set [''Python''] \<subseteq> set [''Python'', ''Django''] \<and>
   skill_match_score (SkillScorer_score SkillScorer_default [''Python''] [''Python'', ''Django''] [])
     \<le> skill_match_score (SkillScorer_score SkillScorer_default [''Python'', ''Django'']
          [''Python'', ''Django''] [])"
proof -
  have sub: "set [''Python''] \<subseteq> set [''Python'', ''Django'']" by simp
  from skill_score_monotonic [OF sub] sub show ?thesis by blast
qed


section \<open>The experience score\<close>

lemma experience_score_no_requirement:
  "job_min_years \<le> 0 \<Longrightarrow> ExperienceScorer_score lib resume_years job_min_years es = 1"
  by (simp add: ExperienceScorer_score_def)

lemma experience_score_known:
  "0 < job_min_years \<Longrightarrow>
     ExperienceScorer_score lib (Some y) job_min_years es =
       (if real_of_int job_min_years \<le> y then 1
        else if y \<le> 0 then 0
        else y / real_of_int job_min_years)"
  by (simp add: ExperienceScorer_score_def)

lemma experience_score_from_entries:
  "0 < job_min_years \<Longrightarrow> entries \<noteq> [] \<Longrightarrow>
     ExperienceScorer_score lib None job_min_years (Some entries) =
       ExperienceScorer_score lib (Some (estimate_years_from_entries lib entries)) job_min_years None"
  by (simp add: ExperienceScorer_score_def)

lemma experience_score_unknown:
  "0 < job_min_years \<Longrightarrow> ExperienceScorer_score lib None job_min_years None = 1 / 2"
  "0 < job_min_years \<Longrightarrow> ExperienceScorer_score lib None job_min_years (Some []) = 1 / 2"
  by (simp_all add: ExperienceScorer_score_def)

text \<open>
  C5. Without a requirement the score is 1. With a requirement \<open>m > 0\<close> and known
  candidate years \<open>y\<close> (the given years, or the estimate from the entries when no years are
  given) it is 1 if \<open>y \<ge> m\<close>, 0 if \<open>y \<le> 0\<close>, and \<open>y / m\<close> in between; with neither years nor
  entries it is one half.
\<close>

theorem experience_score_cases:
  "(job_min_years \<le> 0 \<longrightarrow>
      ExperienceScorer_score lib resume_years job_min_years experience_entries = 1) \<and>
   (0 < job_min_years \<longrightarrow>
      ExperienceScorer_score lib (Some y) job_min_years experience_entries =
        (if real_of_int job_min_years \<le> y then 1
         else if y \<le> 0 then 0
         else y / real_of_int job_min_years)) \<and>
   (0 < job_min_years \<and> entries \<noteq> [] \<longrightarrow>
      ExperienceScorer_score lib None job_min_years (Some entries) =
        (let y' = estimate_years_from_entries lib entries
         in if real_of_int job_min_years \<le> y' then 1
            else if y' \<le> 0 then 0
            else y' / real_of_int job_min_years)) \<and>
   (0 < job_min_years \<longrightarrow>
      ExperienceScorer_score lib None job_min_years None = 1 / 2 \<and>
      ExperienceScorer_score lib None job_min_years (Some []) = 1 / 2)"
  by (simp add: experience_score_no_requirement experience_score_known
      experience_score_from_entries experience_score_unknown Let_def)

theorem experience_score_cases_witness:
  "ExperienceScorer_score example_library (Some 7) 0 None = 1 \<and>
   ExperienceScorer_score example_library (Some 5) 5 None = 1 \<and>
   ExperienceScorer_score example_library (Some 2) 5 None = 2 / 5 \<and>
   ExperienceScorer_score example_library (Some 0) 5 None = 0 \<and>
   ExperienceScorer_score example_library None 5 None = 1 / 2"
  using experience_score_cases [of 0 example_library "Some 7" None 0 "[]"]
    experience_score_cases [of 5 example_library None None 5 "[]"]
    experience_score_cases [of 5 example_library None None 2 "[]"]
    experience_score_cases [of 5 example_library None None 0 "[]"]
  by simp


section \<open>Clearance detection\<close>

lemma any_pattern_matches_iff:
  "any_pattern_matches ps t \<longleftrightarrow> list_ex (\<lambda>p. re_search p t \<noteq> None) ps"
  by (induction ps) simp_all

lemma first_matching_level_find:
  "first_matching_level ls t =
     (case find (\<lambda>l. any_pattern_matches (patterns_of l) t) ls of Some l \<Rightarrow> l | None \<Rightarrow> NONE)"
  by (induction ls) simp_all

lemma search_from_anywhere:
  "search_from r left s \<noteq> None \<longleftrightarrow>
     (\<exists>pre post. s = pre @ post \<and> rmatch r (rev pre @ left, post, []) \<noteq> [])"
proof (induction s arbitrary: left)
  case Nil
  then show ?case by (auto split: list.splits)
next
  case (Cons c cs)
  show ?case
  proof (cases "rmatch r (left, c # cs, [])")
    case Nil
    have "(\<exists>pre post. c # cs = pre @ post \<and> rmatch r (rev pre @ left, post, []) \<noteq> []) \<longleftrightarrow>
          (\<exists>pre post. cs = pre @ post \<and> rmatch r (rev pre @ c # left, post, []) \<noteq> [])"
      (is "?L \<longleftrightarrow> ?R")
    proof
      assume ?L
      then obtain pre post where p: "c # cs = pre @ post" "rmatch r (rev pre @ left, post, []) \<noteq> []"
        by blast
      with Nil have "pre \<noteq> []" by (cases pre) auto
      with p(1) obtain pre' where "pre = c # pre'" "cs = pre' @ post"
        by (cases pre) auto
      with p(2) show ?R by auto
    next
      assume ?R
      then obtain pre post where "cs = pre @ post" "rmatch r (rev pre @ c # left, post, []) \<noteq> []"
        by blast
      then have "c # cs = (c # pre) @ post" "rmatch r (rev (c # pre) @ left, post, []) \<noteq> []"
        by simp_all
      then show ?L by blast
    qed
    with Nil Cons.IH [of "c # left"] show ?thesis by simp
  next
    case (Cons st sts)
    then have "rmatch r (rev [] @ left, c # cs, []) \<noteq> []" by simp
    then have "\<exists>pre post. c # cs = pre @ post \<and> rmatch r (rev pre @ left, post, []) \<noteq> []"
      by (metis append_Nil)
    with Cons show ?thesis by (auto split: prod.splits)
  qed
qed

lemma no_pattern_matches_empty:
  "any_pattern_matches TS_SCI_patterns [] = False"
  "any_pattern_matches TOP_SECRET_patterns [] = False"
  "any_pattern_matches SECRET_patterns [] = False"
  "any_pattern_matches PUBLIC_TRUST_patterns [] = False"
  by code_simp+

lemma patterns_of_simps:
  "patterns_of TS_SCI = TS_SCI_patterns"
  "patterns_of TOP_SECRET = TOP_SECRET_patterns"
  "patterns_of SECRET = SECRET_patterns"
  "patterns_of PUBLIC_TRUST = PUBLIC_TRUST_patterns"
  "patterns_of NONE = []"
  by (simp_all add: patterns_of_def CLEARANCE_PATTERNS_def)

lemma detect_example_1:
  "detect_clearance_from_text ''Secret clearance since 2015, later TS/SCI'' = TS_SCI"
  by code_simp

lemma detect_example_2:
  "detect_clearance_from_text ''Active TS/SCI, before that Secret'' = TS_SCI"
  by code_simp


lemma level_matches_iff:
  "level_matches level txt \<longleftrightarrow> any_pattern_matches (patterns_of level) (lower txt)"
  by (simp add: level_matches_def any_pattern_matches_iff)

lemma level_matches_empty: "level_matches level [] = False"
  by (cases level) (simp_all add: level_matches_iff lower_def patterns_of_simps no_pattern_matches_empty)

lemma detect_clearance_cases:
  "detect_clearance_from_text txt =
     (if level_matches TS_SCI txt then TS_SCI
      else if level_matches TOP_SECRET txt then TOP_SECRET
      else if level_matches SECRET txt then SECRET
      else if level_matches PUBLIC_TRUST txt then PUBLIC_TRUST
      else NONE)"
proof (cases "txt = []")
  case True
  then show ?thesis by (simp add: detect_clearance_from_text_def level_matches_empty)
next
  case False
  then show ?thesis by (simp add: detect_clearance_from_text_def level_matches_iff)
qed

lemma example_mentions_both:
  "level_matches SECRET ''Secret clearance since 2015, later TS/SCI''"
  "level_matches TS_SCI ''Secret clearance since 2015, later TS/SCI''"
  "level_matches SECRET ''Active TS/SCI, before that Secret''"
  "level_matches TS_SCI ''Active TS/SCI, before that Secret''"
  by code_simp+

text \<open>
  C6. The levels are tried from the highest to the lowest, and the first level one of
  whose patterns is found anywhere in the lower-cased text is the result; \<open>NONE\<close> if no
  level has one. A text that mentions both \<open>Secret\<close> and \<open>TS/SCI\<close> is \<open>TS_SCI\<close>, whichever
  comes first in the text.
\<close>

theorem detect_clearance_highest_first:
  "detect_clearance_from_text txt =
     (if level_matches TS_SCI txt then TS_SCI
      else if level_matches TOP_SECRET txt then TOP_SECRET
      else if level_matches SECRET txt then SECRET
      else if level_matches PUBLIC_TRUST txt then PUBLIC_TRUST
      else NONE) \<and>
   level_matches SECRET ''Secret clearance since 2015, later TS/SCI'' \<and>
   level_matches TS_SCI ''Secret clearance since 2015, later TS/SCI'' \<and>
   detect_clearance_from_text ''Secret clearance since 2015, later TS/SCI'' = TS_SCI \<and>
   level_matches SECRET ''Active TS/SCI, before that Secret'' \<and>
   level_matches TS_SCI ''Active TS/SCI, before that Secret'' \<and>
   detect_clearance_from_text ''Active TS/SCI, before that Secret'' = TS_SCI"
  using detect_clearance_cases [of "txt"] example_mentions_both detect_example_1 detect_example_2
  by simp


section \<open>The matcher\<close>

lemma match_disqualified:
  assumes "\<not> meets_clearance_requirement (detect_clearance_from_text (raw_text resume))
             (clearance_level job)"
  shows "JobMatcher_match lib self resume job re je =
     MatchResult_default
       \<lparr>score := 0,
        disqualified := True,
        disqualification_reason := Some (''Clearance requirement not met. ''
           @ ''Job requires '' @ clearance_to_string (clearance_level job) @ '', ''
           @ ''resume shows '' @ clearance_to_string (detect_clearance_from_text (raw_text resume))
           @ ''.''),
        clearance_met := False,
        job_id := Some (job_ident job),
        job_title := Some (title job),
        job_company := Some (company job)\<rparr>"
  using assms by (simp add: JobMatcher_match_def Let_def)

lemma match_qualified:
  assumes "meets_clearance_requirement (detect_clearance_from_text (raw_text resume))
             (clearance_level job)"
  shows "disqualified (JobMatcher_match lib self resume job re je) = False"
    and "disqualification_reason (JobMatcher_match lib self resume job re je) = None"
    and "clearance_met (JobMatcher_match lib self resume job re je) = True"
  using assms by (simp_all add: JobMatcher_match_def Let_def MatchResult_default_def)

lemma match_disqualified_iff:
  "disqualified (JobMatcher_match lib self resume job re je) \<longleftrightarrow>
     \<not> meets_clearance_requirement (detect_clearance_from_text (raw_text resume))
         (clearance_level job)"
  by (cases "meets_clearance_requirement (detect_clearance_from_text (raw_text resume))
         (clearance_level job)")
     (simp_all add: match_qualified match_disqualified)

lemma example_resume_clearance: "detect_clearance_from_text (raw_text example_resume) = NONE"
  unfolding example_resume_def Resume_default_def by code_simp

lemma example_disqualified:
  "JobMatcher_match example_library JobMatcher_default example_resume cleared_job None None =
     MatchResult_default
       \<lparr>score := 0,
        disqualified := True,
        disqualification_reason :=
          Some ''Clearance requirement not met. Job requires TS/SCI, resume shows None Required.'',
        clearance_met := False,
        job_id := Some ''job-2'',
        job_title := Some ''Intelligence Analyst'',
        job_company := Some ''TechCorp''\<rparr>"
proof -
  have "\<not> meets_clearance_requirement (detect_clearance_from_text (raw_text example_resume))
          (clearance_level cleared_job)"
    by (simp add: example_resume_clearance meets_clearance_requirement_def cleared_job_def)
  from match_disqualified [OF this] show ?thesis
    by (simp add: example_resume_clearance cleared_job_def example_job_def)
qed

lemma example_qualified:
  "meets_clearance_requirement (detect_clearance_from_text (raw_text example_resume))
     (clearance_level example_job)"
  by (simp add: example_resume_clearance meets_clearance_requirement_def example_job_def)

text \<open>
  C2. A disqualified result of \<open>match\<close> has score 0 and a reason that is a non-empty string;
  a result that is not disqualified has no reason.
\<close>

theorem match_disqualification_invariant:
  "(disqualified (JobMatcher_match lib self resume job re je) \<longrightarrow>
      score (JobMatcher_match lib self resume job re je) = 0 \<and>
      (\<exists>reason. disqualification_reason (JobMatcher_match lib self resume job re je) = Some reason \<and>
         reason \<noteq> [])) \<and>
   (\<not> disqualified (JobMatcher_match lib self resume job re je) \<longrightarrow>
      disqualification_reason (JobMatcher_match lib self resume job re je) = None)"
proof (cases "meets_clearance_requirement (detect_clearance_from_text (raw_text resume))
         (clearance_level job)")
  case True
  then show ?thesis by (simp add: match_qualified)
next
  case False
  then show ?thesis by (simp add: match_disqualified MatchResult_default_def)
qed

theorem match_disqualification_invariant_witness:
  "disqualified (JobMatcher_match example_library JobMatcher_default example_resume cleared_job None None) \<and>
   score (JobMatcher_match example_library JobMatcher_default example_resume cleared_job None None) = 0 \<and>
   disqualification_reason
     (JobMatcher_match example_library JobMatcher_default example_resume cleared_job None None) =
     Some ''Clearance requirement not met. Job requires TS/SCI, resume shows None Required.'' \<and>
   \<not> disqualified (JobMatcher_match example_library JobMatcher_default example_resume example_job None None) \<and>
   disqualification_reason
     (JobMatcher_match example_library JobMatcher_default example_resume example_job None None) = None"
proof -
  have d: "disqualified
      (JobMatcher_match example_library JobMatcher_default example_resume cleared_job None None)"
    and r: "disqualification_reason
      (JobMatcher_match example_library JobMatcher_default example_resume cleared_job None None) =
      Some ''Clearance requirement not met. Job requires TS/SCI, resume shows None Required.''"
    by (simp_all add: example_disqualified)
  have q: "\<not> disqualified
      (JobMatcher_match example_library JobMatcher_default example_resume example_job None None)"
    by (simp add: match_qualified(1) [OF example_qualified])
  from d r q
    match_disqualification_invariant [of example_library JobMatcher_default example_resume
      cleared_job None None]
    match_disqualification_invariant [of example_library JobMatcher_default example_resume
      example_job None None]
  show ?thesis by blast
qed

section \<open>Batch matching\<close>

lemma semantic_score_precomputed:
  "SemanticScorer_score lib t jt
     (case re of None \<Rightarrow> if t \<noteq> [] then Some (encode lib t) else None | Some e \<Rightarrow> Some e) je =
   SemanticScorer_score lib t jt re je"
  by (cases re) (simp_all add: SemanticScorer_score_def)

lemma match_precomputed:
  "JobMatcher_match lib self resume job
     (case re of None \<Rightarrow> if raw_text resume \<noteq> [] then Some (encode lib (raw_text resume)) else None
      | Some e \<Rightarrow> Some e) je =
   JobMatcher_match lib self resume job re je"
  unfolding JobMatcher_match_def Let_def semantic_score_precomputed ..

lemma match_batch_unsorted:
  "match_batch lib self resume jobs re False =
     map (\<lambda>job. JobMatcher_match lib self resume job re None) jobs"
  by (simp add: match_batch_def Let_def match_precomputed)

lemma match_batch_sorted:
  "match_batch lib self resume jobs re True =
     sort_by_score_descending (map (\<lambda>job. JobMatcher_match lib self resume job re None) jobs)"
  by (simp add: match_batch_def Let_def match_precomputed sort_by_score_descending_def)

lemma mset_sort_by_score_descending: "mset (sort_by_score_descending rs) = mset rs"
  by (simp add: sort_by_score_descending_def)

lemma sorted_sort_by_score_descending:
  "sorted_wrt (\<lambda>a b. score b \<le> score a) (sort_by_score_descending rs)"
proof -
  have "sorted (map score (sort_key score (rev rs)))" by (rule sorted_sort_key)
  then have "sorted_wrt (\<lambda>a b. score a \<le> score b) (sort_key score (rev rs))"
    by (simp add: sorted_map)
  then show ?thesis
    by (simp add: sort_by_score_descending_def sorted_wrt_rev)
qed

section \<open>The years of experience the matcher uses\<close>

lemma estimate_experience_years_positions:
  assumes "experience resume \<noteq> []"
  shows "estimate_experience_years resume \<noteq> None"
  using assms by (simp add: estimate_experience_years_def split: option.splits)

text \<open>
  The entries \<open>match\<close> hands to the scorer never change the score: whenever the resume
  lists a position, the years are already known from the text or from the number of
  positions.
\<close>

lemma experience_score_given_years:
  "ExperienceScorer_score lib (Some y) m es = ExperienceScorer_score lib (Some y) m None"
  by (simp add: ExperienceScorer_score_def)

lemma match_experience_score:
  assumes "meets_clearance_requirement (detect_clearance_from_text (raw_text resume))
             (clearance_level job)"
  shows "experience_score (JobMatcher_match lib self resume job re je) =
     py_round (ExperienceScorer_score lib (estimate_experience_years resume)
       (min_experience_years job) None) 4"
proof (cases "experience resume = []")
  case True
  with assms show ?thesis
    by (simp add: JobMatcher_match_def Let_def MatchResult_default_def)
next
  case False
  then obtain y where y: "estimate_experience_years resume = Some y"
    using estimate_experience_years_positions by blast
  from assms have "experience_score (JobMatcher_match lib self resume job re je) =
      py_round (ExperienceScorer_score lib (estimate_experience_years resume)
        (min_experience_years job) (Some (map entry_of (experience resume)))) 4"
    using False by (simp add: JobMatcher_match_def Let_def MatchResult_default_def)
  with y show ?thesis
    by (simp add: experience_score_given_years [of lib y _ "Some (map entry_of (experience resume))"])
qed

lemma example_resume_text_years: "estimate_years_from_text (raw_text example_resume) = None"
  unfolding example_resume_def Resume_default_def by code_simp

lemma example_resume_years: "estimate_experience_years example_resume = Some (5 / 2)"
proof -
  have "experience example_resume \<noteq> []" "raw_text example_resume \<noteq> []"
    "length (experience example_resume) = 1"
    by (simp_all add: example_resume_def)
  then show ?thesis
    by (simp add: estimate_experience_years_def example_resume_text_years
        estimate_from_positions_def)
qed

lemma example_parse_dates:
  "parse_date example_library (Some ''2010-01'') = Some \<lparr>year = 2010, month = 1, day = 1\<rparr>"
  "parse_date example_library (Some ''2020-01'') = Some \<lparr>year = 2020, month = 1, day = 1\<rparr>"
  by (simp_all add: parse_date_def example_library_def date_formats_def Let_def
      strip_simps lower_simps)

lemma example_entries_years:
  "estimate_years_from_entries example_library (map entry_of (experience example_resume)) = 10"
  by (simp add: estimate_years_from_entries_def calculate_entry_duration_def example_resume_def
      example_position_def entry_of_def example_parse_dates months_between_def Let_def)

lemma py_round_half: "py_round (1 / 2) 4 = 1 / 2"
  by (simp add: py_round_def Let_def)

text \<open>
  C8 at a concrete resume: the text has no years pattern and the one position lasted
  ten years by its dates. The sum of the durations is 10 years, which would score 1
  against a requirement of 5; \<open>match\<close> takes 2.5 years for the one position and scores
  one half.
\<close>

theorem match_uses_position_count:
  "estimate_years_from_text (raw_text example_resume) = None \<and>
   estimate_years_from_entries example_library (map entry_of (experience example_resume)) = 10 \<and>
   ExperienceScorer_score example_library None 5
     (Some (map entry_of (experience example_resume))) = 1 \<and>
   estimate_experience_years example_resume = Some (5 / 2) \<and>
   min_experience_years example_job = 5 \<and>
   experience_score (JobMatcher_match example_library JobMatcher_default example_resume
     example_job None None) = 1 / 2"
proof -
  have a: "ExperienceScorer_score example_library None 5
     (Some (map entry_of (experience example_resume))) = 1"
    using example_entries_years
    by (simp add: ExperienceScorer_score_def example_resume_def)
  have b: "min_experience_years example_job = 5" by (simp add: example_job_def)
  have "experience_score (JobMatcher_match example_library JobMatcher_default example_resume
     example_job None None) = py_round (ExperienceScorer_score example_library (Some (5 / 2)) 5 None) 4"
    using match_experience_score [OF example_qualified] by (simp add: example_resume_years b)
  also have "\<dots> = 1 / 2"
    by (simp add: ExperienceScorer_score_def py_round_half)
  finally show ?thesis
    using a b example_resume_text_years example_entries_years example_resume_years by simp
qed


section \<open>The resume parser\<close>

lemma parse_block_frames:
  "raw_text (parse_sections ex r) = raw_text r"
  "raw_text (parse_contact ex s r) = raw_text r"
  "raw_text (parse_skills ex s r) = raw_text r"
  "raw_text (parse_experience ex s r) = raw_text r"
  "sections (parse_contact ex s r) = sections r"
  "sections (parse_skills ex s r) = sections r"
  "sections (parse_experience ex s r) = sections r"
  "sections (parse_education ex s r) = sections r"
  by (simp_all add: parse_sections_def parse_contact_def parse_skills_def parse_experience_def
      parse_education_def split: raises.splits)

lemma parse_sections_result:
  "sections (parse_sections ex r) = block_value (sections r) (section_extractor ex (raw_text r))"
  "parse_errors (parse_sections ex r) =
     parse_errors r @ block_errors ''Section extraction failed: '' (section_extractor ex (raw_text r))"
  "contact (parse_sections ex r) = contact r"
  "skills (parse_sections ex r) = skills r"
  "experience (parse_sections ex r) = experience r"
  "education (parse_sections ex r) = education r"
  "file_type (parse_sections ex r) = file_type r"
  by (simp_all add: parse_sections_def block_value_def block_errors_def split: raises.splits)

lemma parse_contact_result:
  "contact (parse_contact ex s r) = block_value (contact r) (contact_extractor ex (raw_text r) s)"
  "parse_errors (parse_contact ex s r) =
     parse_errors r @ block_errors ''Contact extraction failed: '' (contact_extractor ex (raw_text r) s)"
  "skills (parse_contact ex s r) = skills r"
  "experience (parse_contact ex s r) = experience r"
  "education (parse_contact ex s r) = education r"
  "file_type (parse_contact ex s r) = file_type r"
  by (simp_all add: parse_contact_def block_value_def block_errors_def split: raises.splits)

lemma parse_skills_result:
  "skills (parse_skills ex s r) = block_value (skills r) (skill_extractor ex (raw_text r) s)"
  "parse_errors (parse_skills ex s r) =
     parse_errors r @ block_errors ''Skill extraction failed: '' (skill_extractor ex (raw_text r) s)"
  "contact (parse_skills ex s r) = contact r"
  "experience (parse_skills ex s r) = experience r"
  "education (parse_skills ex s r) = education r"
  "file_type (parse_skills ex s r) = file_type r"
  by (simp_all add: parse_skills_def block_value_def block_errors_def split: raises.splits)

lemma parse_experience_result:
  "experience (parse_experience ex s r) =
     block_value (experience r) (experience_extractor ex (raw_text r) s)"
  "parse_errors (parse_experience ex s r) =
     parse_errors r @ block_errors ''Experience extraction failed: ''
       (experience_extractor ex (raw_text r) s)"
  "contact (parse_experience ex s r) = contact r"
  "skills (parse_experience ex s r) = skills r"
  "education (parse_experience ex s r) = education r"
  "file_type (parse_experience ex s r) = file_type r"
  by (simp_all add: parse_experience_def block_value_def block_errors_def split: raises.splits)

lemma parse_education_result:
  "education (parse_education ex s r) =
     block_value (education r) (education_extractor ex (raw_text r) s)"
  "parse_errors (parse_education ex s r) =
     parse_errors r @ block_errors ''Education extraction failed: ''
       (education_extractor ex (raw_text r) s)"
  "contact (parse_education ex s r) = contact r"
  "skills (parse_education ex s r) = skills r"
  "experience (parse_education ex s r) = experience r"
  "raw_text (parse_education ex s r) = raw_text r"
  "file_type (parse_education ex s r) = file_type r"
  by (simp_all add: parse_education_def block_value_def block_errors_def split: raises.splits)

lemmas parse_block_simps = parse_block_frames parse_sections_result parse_contact_result
  parse_skills_result parse_experience_result parse_education_result

lemma section_content_frames:
  "section_content (parse_contact ex s r) k = section_content r k"
  "section_content (parse_skills ex s r) k = section_content r k"
  "section_content (parse_experience ex s r) k = section_content r k"
  "section_content (parse_education ex s r) k = section_content r k"
  by (simp_all add: section_content_def parse_block_frames)

lemma parse_text_result:
  "\<exists>r. parse_text ex t source = Returns r \<and>
     raw_text r = t \<and> file_type r = Some source \<and> file_path r = None \<and>
     sections r = block_value [] (section_extractor ex t) \<and>
     contact r = block_value ContactInfo_default
       (contact_extractor ex t (section_content r ''contact'')) \<and>
     skills r = block_value [] (skill_extractor ex t (section_content r ''skills'')) \<and>
     experience r = block_value []
       (experience_extractor ex t (section_content r ''experience'')) \<and>
     education r = block_value []
       (education_extractor ex t (section_content r ''education'')) \<and>
     parse_errors r =
       block_errors ''Section extraction failed: '' (section_extractor ex t) @
       block_errors ''Contact extraction failed: ''
         (contact_extractor ex t (section_content r ''contact'')) @
       block_errors ''Skill extraction failed: ''
         (skill_extractor ex t (section_content r ''skills'')) @
       block_errors ''Experience extraction failed: ''
         (experience_extractor ex t (section_content r ''experience'')) @
       block_errors ''Education extraction failed: ''
         (education_extractor ex t (section_content r ''education''))"
proof -
  have file_path_frames: "file_path (parse_sections ex r) = file_path r"
    "file_path (parse_contact ex s r) = file_path r"
    "file_path (parse_skills ex s r) = file_path r"
    "file_path (parse_experience ex s r) = file_path r"
    "file_path (parse_education ex s r) = file_path r" for r s
    by (simp_all add: parse_sections_def parse_contact_def parse_skills_def parse_experience_def
        parse_education_def split: raises.splits)
  show ?thesis
    by (simp add: parse_text_def parse_content_def Let_def parse_block_simps
        section_content_frames file_path_frames Resume_default_def)
qed

text \<open>
  C9. \<open>parse_text\<close> returns a resume for every text and every behaviour of the five
  extractors. Each field holds what its extractor returned, or its default (the empty
  list, the empty contact record) if the extractor raised; \<open>parse_errors\<close> holds one
  message for each extractor that raised, in the order the extractors run, and nothing
  else. An extractor that raises does not stop the ones after it.
\<close>

theorem parse_text_never_raises:
  "\<exists>r. parse_text ex t source = Returns r \<and>
     raw_text r = t \<and>
     sections r = (case section_extractor ex t of Returns v \<Rightarrow> v | Raises e \<Rightarrow> []) \<and>
     contact r = (case contact_extractor ex t (section_content r ''contact'') of
                    Returns v \<Rightarrow> v | Raises e \<Rightarrow> ContactInfo_default) \<and>
     skills r = (case skill_extractor ex t (section_content r ''skills'') of
                   Returns v \<Rightarrow> v | Raises e \<Rightarrow> []) \<and>
     experience r = (case experience_extractor ex t (section_content r ''experience'') of
                       Returns v \<Rightarrow> v | Raises e \<Rightarrow> []) \<and>
     education r = (case education_extractor ex t (section_content r ''education'') of
                      Returns v \<Rightarrow> v | Raises e \<Rightarrow> []) \<and>
     parse_errors r =
       (case section_extractor ex t of
          Returns v \<Rightarrow> [] | Raises e \<Rightarrow> [''Section extraction failed: '' @ e]) @
       (case contact_extractor ex t (section_content r ''contact'') of
          Returns v \<Rightarrow> [] | Raises e \<Rightarrow> [''Contact extraction failed: '' @ e]) @
       (case skill_extractor ex t (section_content r ''skills'') of
          Returns v \<Rightarrow> [] | Raises e \<Rightarrow> [''Skill extraction failed: '' @ e]) @
       (case experience_extractor ex t (section_content r ''experience'') of
          Returns v \<Rightarrow> [] | Raises e \<Rightarrow> [''Experience extraction failed: '' @ e]) @
       (case education_extractor ex t (section_content r ''education'') of
          Returns v \<Rightarrow> [] | Raises e \<Rightarrow> [''Education extraction failed: '' @ e])"
  using parse_text_result [of ex t source]
  unfolding block_value_def block_errors_def by blast

lemma parse_text_example:
  "parse_text example_extractors ''Ada Lovelace'' ''text'' =
     Returns (Resume_default\<lparr>
       raw_text := ''Ada Lovelace'',
       contact := ContactInfo_default\<lparr>name := Some ''Ada Lovelace''\<rparr>,
       experience := [example_position],
       sections := [(''skills'', \<lparr>section_name = ''skills'', content = ''Python, Django'',
          start_index = 0, end_index = 14\<rparr>)],
       file_type := Some ''text'',
       parse_errors := [''Skill extraction failed: bad pattern'',
          ''Education extraction failed: no degree'']\<rparr>)"
  by (simp add: parse_text_def parse_content_def Let_def parse_sections_def parse_contact_def
      parse_skills_def parse_experience_def parse_education_def example_extractors_def
      Resume_default_def)


section \<open>The model on the repository's own tests\<close>

text \<open>
  The expected values of the test suite (tests/test_job_matcher.py and
  tests/test_scoring.py), computed by the model.
\<close>

lemma normalize_PostgreSQL: "normalize_skill ''PostgreSQL'' = ''postgresql''"
proof (rule normalize_to_canonical)
  show "''PostgreSQL'' \<noteq> []" by simp
  show "strip (lower ''PostgreSQL'') = ''postgresql''" by (simp add: lower_simps strip_simps)
  show "''postgresql'' \<in> set (map fst SKILL_SYNONYMS)"
    unfolding SKILL_SYNONYMS_def by (simp only: canonical_eval_simps)
qed

lemma normalize_ReactJS: "normalize_skill ''ReactJS'' = ''react''"
proof (rule normalize_skill_hit)
  show "''ReactJS'' \<noteq> []" by simp
  show "strip (lower ''ReactJS'') = ''reactjs''" by (simp add: lower_simps strip_simps)
  show "list_all (\<lambda>(c', syns'). (''reactjs'' = c' \<or> ''reactjs'' \<in> set syns') \<longrightarrow> c' = ''react'')
          SKILL_SYNONYMS"
    unfolding SKILL_SYNONYMS_def by (simp only: table_eval_simps)
  show "list_ex (\<lambda>(c', syns'). ''reactjs'' = c' \<or> ''reactjs'' \<in> set syns') SKILL_SYNONYMS"
    unfolding SKILL_SYNONYMS_def by (simp only: table_eval_simps)
qed

lemma normalize_JS: "normalize_skill ''JS'' = ''javascript''"
proof (rule normalize_skill_hit)
  show "''JS'' \<noteq> []" by simp
  show "strip (lower ''JS'') = ''js''" by (simp add: lower_simps strip_simps)
  show "list_all (\<lambda>(c', syns'). (''js'' = c' \<or> ''js'' \<in> set syns') \<longrightarrow> c' = ''javascript'')
          SKILL_SYNONYMS"
    unfolding SKILL_SYNONYMS_def by (simp only: table_eval_simps)
  show "list_ex (\<lambda>(c', syns'). ''js'' = c' \<or> ''js'' \<in> set syns') SKILL_SYNONYMS"
    unfolding SKILL_SYNONYMS_def by (simp only: table_eval_simps)
qed

lemma normalize_Python3: "normalize_skill ''Python3'' = ''python''"
proof (rule normalize_skill_hit)
  show "''Python3'' \<noteq> []" by simp
  show "strip (lower ''Python3'') = ''python3''" by (simp add: lower_simps strip_simps)
  show "list_all (\<lambda>(c', syns'). (''python3'' = c' \<or> ''python3'' \<in> set syns') \<longrightarrow> c' = ''python'')
          SKILL_SYNONYMS"
    unfolding SKILL_SYNONYMS_def by (simp only: table_eval_simps)
  show "list_ex (\<lambda>(c', syns'). ''python3'' = c' \<or> ''python3'' \<in> set syns') SKILL_SYNONYMS"
    unfolding SKILL_SYNONYMS_def by (simp only: table_eval_simps)
qed

lemma detect_clearance_tests:
  "detect_clearance_from_text ''Active TS/SCI clearance with CI Poly'' = TS_SCI"
  "detect_clearance_from_text ''Current TS-SCI eligibility'' = TS_SCI"
  "detect_clearance_from_text ''Top Secret/SCI cleared'' = TS_SCI"
  "detect_clearance_from_text ''Current Top Secret clearance'' = TOP_SECRET"
  "detect_clearance_from_text ''Active TS clearance'' = TOP_SECRET"
  "detect_clearance_from_text ''Active Secret clearance since 2020'' = SECRET"
  "detect_clearance_from_text ''Software engineer with Python experience'' = NONE"
  by code_simp+

lemma estimate_years_from_text_tests:
  "estimate_years_from_text ''5 years of experience in Python'' = Some 5"
  "estimate_years_from_text ''Over 10 years of software development'' = Some 10"
  "estimate_years_from_text ''3+ years experience required'' = Some 3"
  by code_simp+

lemma experience_score_tests:
  "ExperienceScorer_score lib (Some 5) 5 None = 1"
  "ExperienceScorer_score lib (Some 10) 5 None = 1"
  "ExperienceScorer_score lib (Some 2) 5 None = 2 / 5"
  "ExperienceScorer_score lib (Some 5) 0 None = 1"
  "ExperienceScorer_score lib None 5 None = 1 / 2"
  "estimate_from_positions 3 = 15 / 2"
  by (simp_all add: ExperienceScorer_score_def estimate_from_positions_def)

lemma get_canonical_skill_examples:
  "get_canonical_skill ''Python'' = ''Python''"
  "get_canonical_skill ''Django'' = ''Django''"
  "get_canonical_skill ''PostgreSQL'' = ''PostgreSQL''"
  by (simp_all add: get_canonical_skill_def display_names_def normalize_Python normalize_Django
      normalize_PostgreSQL)

lemma example_normalized_sets:
  "normalized_set [''Python'', ''Django'', ''PostgreSQL''] = {''python'', ''django'', ''postgresql''}"
  "normalized_set [''Python'', ''Django''] = {''python'', ''django''}"
  "normalized_set [''PostgreSQL''] = {''postgresql''}"
  by (simp_all add: normalized_set_def normalize_Python normalize_Django normalize_PostgreSQL)

text \<open>
  The perfect match of the tests (and the first scenario of the specification): score 1,
  three matched skills, nothing missing.
\<close>

lemma display_loop_none: "display_loop {} xs display seen = display"
  by (induction xs arbitrary: display seen) (simp_all add: Let_def)

lemma get_display_skills_none: "get_display_skills {} xs = []"
  by (simp add: get_display_skills_def display_loop_none)

lemma skill_scorer_perfect_match:
  "SkillScorer_score SkillScorer_default [''Python'', ''Django'', ''PostgreSQL'']
     [''Python'', ''Django''] [''PostgreSQL''] =
   \<lparr>skill_match_score = 1,
    skill_match_matched = [''Django'', ''PostgreSQL'', ''Python''],
    missing_required = [], missing_preferred = [], gaps = []\<rparr>"
proof -
  let ?S = "{''python'', ''django'', ''postgresql''}"
  let ?R = "{''python'', ''django''}"
  let ?P = "{''postgresql''}"
  have inter: "?S \<inter> ?R = ?R" "?S \<inter> ?P = ?P"
    by auto
  have cards: "card ?R = 2" "card ?P = 1"
    by simp_all
  have disp: "get_display_skills (?R \<union> ?P) ([''Python'', ''Django''] @ [''PostgreSQL'']) =
      [''Python'', ''Django'', ''PostgreSQL'']"
    by (simp add: get_display_skills_def Let_def normalize_Python normalize_Django
        normalize_PostgreSQL get_canonical_skill_examples)
  have srt: "sort [''Python'', ''Django'', ''PostgreSQL''] = [''Django'', ''PostgreSQL'', ''Python'']"
    by code_simp
  show ?thesis
    unfolding SkillScorer_score_def Let_def example_normalized_sets inter Diff_cancel
      get_display_skills_none disp srt cards SkillScorer_default_def
    by (simp add: build_skill_gaps_def)
qed

lemma py_round_example: "py_round 70 (Suc 0) = 70" "py_round 1 4 = 1"
  by (simp_all add: py_round_def Let_def)

text \<open>The whole match of the example resume against the example job.\<close>

lemma example_match_score:
  "score (JobMatcher_match example_library JobMatcher_default example_resume example_job None None) = 70"
proof -
  have sem: "SemanticScorer_score example_library (raw_text example_resume) (description example_job)
      None None = 1 / 2"
    by (simp add: SemanticScorer_score_def example_library_def example_resume_def example_job_def
        Let_def)
  have skl: "SkillScorer_score SkillScorer_default (skills example_resume)
      (required_skills example_job) (preferred_skills example_job) =
      \<lparr>skill_match_score = 1,
       skill_match_matched = [''Django'', ''PostgreSQL'', ''Python''],
       missing_required = [], missing_preferred = [], gaps = []\<rparr>"
    using skill_scorer_perfect_match
    by (simp add: example_resume_def example_job_def)
  have ex: "ExperienceScorer_score example_library (estimate_experience_years example_resume)
      (min_experience_years example_job)
      (if experience example_resume \<noteq> [] then Some (map entry_of (experience example_resume))
       else None) = 1 / 2"
    by (simp add: example_resume_years ExperienceScorer_score_def example_job_def)
  from example_qualified show ?thesis
    by (simp add: JobMatcher_match_def Let_def sem skl ex JobMatcher_default_def
        MatchResult_default_def py_round_example)
qed

text \<open>
  The batch of the tests is called without \<open>sort_by_score\<close>; the parameter is then
  \<open>True\<close>, and the results come sorted: the job the resume is disqualified for comes
  last although it is first in the list.
\<close>

lemma match_batch_default_sorts:
  "match_batch_defaults example_library JobMatcher_default example_resume [cleared_job, example_job] =
     [JobMatcher_match example_library JobMatcher_default example_resume example_job None None,
      JobMatcher_match example_library JobMatcher_default example_resume cleared_job None None]"
proof -
  have "score (JobMatcher_match example_library JobMatcher_default example_resume cleared_job
      None None) = 0"
    by (simp add: example_disqualified)
  then show ?thesis
    by (simp add: match_batch_defaults_def match_batch_sorted sort_by_score_descending_def
        example_match_score)
qed


section \<open>The order of a batch\<close>

lemma example_matches_differ:
  "JobMatcher_match example_library JobMatcher_default example_resume example_job None None \<noteq>
   JobMatcher_match example_library JobMatcher_default example_resume cleared_job None None"
proof
  assume "JobMatcher_match example_library JobMatcher_default example_resume example_job None None =
    JobMatcher_match example_library JobMatcher_default example_resume cleared_job None None"
  then have "disqualified
      (JobMatcher_match example_library JobMatcher_default example_resume example_job None None) =
    disqualified
      (JobMatcher_match example_library JobMatcher_default example_resume cleared_job None None)"
    by simp
  then show False
    by (simp add: match_qualified(1) [OF example_qualified] example_disqualified)
qed

text \<open>
  C7, as the claim states it, fails for the call that gives only the resume and the
  jobs: no sort is asked for, and the first result is not the result for the first job.
  The resume is disqualified for the first job (score 0) and scores 70 for the second,
  and the second job's result comes first.
\<close>

theorem match_batch_default_call_reorders:
  "match_batch_defaults example_library JobMatcher_default example_resume [cleared_job, example_job] ! 0 \<noteq>
     JobMatcher_match example_library JobMatcher_default example_resume
       ([cleared_job, example_job] ! 0) None None \<and>
   match_batch_defaults example_library JobMatcher_default example_resume [cleared_job, example_job] ! 0 =
     JobMatcher_match example_library JobMatcher_default example_resume
       ([cleared_job, example_job] ! 1) None None \<and>
   score (JobMatcher_match example_library JobMatcher_default example_resume cleared_job None None) = 0 \<and>
   score (JobMatcher_match example_library JobMatcher_default example_resume example_job None None) = 70"
  using example_matches_differ example_match_score
  by (simp add: match_batch_default_sorts example_disqualified)

text \<open>
  C7, amended. \<open>match_batch\<close> returns one result per job. With \<open>sort_by_score\<close> false the
  results are in the order of the jobs: result \<open>i\<close> is the result of \<open>match\<close> for job \<open>i\<close>.
  With \<open>sort_by_score\<close> true, which is what a call that leaves the argument out gets, it
  returns the same results ordered by score, highest first.
\<close>

theorem match_batch_keeps_order:
  "match_batch lib self resume jobs re False =
     map (\<lambda>job. JobMatcher_match lib self resume job re None) jobs \<and>
   length (match_batch lib self resume jobs re False) = length jobs \<and>
   (\<forall>i < length jobs. match_batch lib self resume jobs re False ! i =
      JobMatcher_match lib self resume (jobs ! i) re None) \<and>
   match_batch_defaults lib self resume jobs = match_batch lib self resume jobs None True \<and>
   length (match_batch lib self resume jobs re True) = length jobs \<and>
   mset (match_batch lib self resume jobs re True) =
     mset (map (\<lambda>job. JobMatcher_match lib self resume job re None) jobs) \<and>
   sorted_wrt (\<lambda>a b. score b \<le> score a) (match_batch lib self resume jobs re True)"
proof -
  have "length (match_batch lib self resume jobs re True) = length jobs"
    using mset_sort_by_score_descending
      [of "map (\<lambda>job. JobMatcher_match lib self resume job re None) jobs"]
    by (simp only: match_batch_sorted) (metis length_map size_mset)
  then show ?thesis
    by (simp add: match_batch_unsorted match_batch_sorted mset_sort_by_score_descending
        sorted_sort_by_score_descending match_batch_defaults_def)
qed

theorem match_batch_keeps_order_witness:
  "match_batch example_library JobMatcher_default example_resume [cleared_job, example_job] None False ! 1 =
     JobMatcher_match example_library JobMatcher_default example_resume example_job None None \<and>
   match_batch example_library JobMatcher_default example_resume [cleared_job, example_job] None False ! 0 =
     JobMatcher_match example_library JobMatcher_default example_resume cleared_job None None"
  using match_batch_keeps_order [of example_library JobMatcher_default example_resume
      "[cleared_job, example_job]" None]
  by simp


end
